theory Spec2Isabelle
  imports Main "HOL-Library.Sublist"
begin

section \<open>Clinical decision support: contextual medication and allergy alerts\<close>

text \<open>
  A shallow embedding of \<^verbatim>\<open>ContextAwareMedicationAllergyAlerts.py\<close>: the four static
  knowledge tables, the four checkers and the aggregator
  \<^verbatim>\<open>generate_contextual_alerts\<close>.

  The patient record is a \<^verbatim>\<open>Dict[str, Any]\<close>, so the values the checkers receive are
  dynamically typed. They are modelled by \<open>pyval\<close>; every operation of the source that
  Python may refuse on such a value (iterating, hashing, comparing with an integer)
  returns a result of type \<open>error + 'a\<close>, with \<open>Inl\<close> for the raised exception.
\<close>

subsection \<open>Python values and the operations the checkers apply to them\<close>

text \<open>
  The values a patient record may hold: \<^verbatim>\<open>None\<close>, an \<^verbatim>\<open>int\<close>, a \<^verbatim>\<open>str\<close> or a
  \<^verbatim>\<open>list\<close> of such values. A \<open>string\<close> is a list of bytes; all strings of the
  knowledge tables are ASCII.
\<close>

datatype pyval = PNone | PInt int | PStr string | PList "pyval list"

text \<open>The only exception the module can raise on these values.\<close>

datatype error = TypeError

definition bind :: "error + 'a \<Rightarrow> ('a \<Rightarrow> error + 'b) \<Rightarrow> error + 'b" where
  "bind m f = (case m of Inl e \<Rightarrow> Inl e | Inr x \<Rightarrow> f x)"

text \<open>
  \<^verbatim>\<open>for x in v\<close>: a list yields its elements, a \<^verbatim>\<open>str\<close> its characters as strings of
  length one; \<^verbatim>\<open>None\<close> and an \<^verbatim>\<open>int\<close> are not iterable.
\<close>

fun py_iter :: "pyval \<Rightarrow> error + pyval list" where
  "py_iter (PList xs) = Inr xs"
| "py_iter (PStr s) = Inr (map (\<lambda>c. PStr [c]) s)"
| "py_iter PNone = Inl TypeError"
| "py_iter (PInt i) = Inl TypeError"

text \<open>
  The body of a \<^verbatim>\<open>for\<close> loop is run on each element in turn, threading the loop's
  state (here always the list \<^verbatim>\<open>alerts\<close>); an exception leaves the loop.
\<close>

fun for_each :: "'a list \<Rightarrow> ('a \<Rightarrow> 's \<Rightarrow> error + 's) \<Rightarrow> 's \<Rightarrow> error + 's" where
  "for_each [] body s = Inr s"
| "for_each (x # xs) body s =
     (case body x s of Inl e \<Rightarrow> Inl e | Inr s' \<Rightarrow> for_each xs body s')"

text \<open>A list is unhashable; \<^verbatim>\<open>None\<close>, \<^verbatim>\<open>int\<close> and \<^verbatim>\<open>str\<close> values are hashable.\<close>

fun hashable :: "pyval \<Rightarrow> bool" where
  "hashable (PList xs) = False"
| "hashable v = True"

text \<open>
  \<^verbatim>\<open>if k in d: ... d[k]\<close> for a table \<open>d\<close> with \<^verbatim>\<open>str\<close> keys, given as the list of its
  items. The test hashes \<open>k\<close>, which raises for a list; \<^verbatim>\<open>None\<close> and an \<^verbatim>\<open>int\<close> equal
  no key. When the key is found the result holds it as a \<open>string\<close> together with its
  entry.
\<close>

fun dict_find :: "(string \<times> 'v) list \<Rightarrow> pyval \<Rightarrow> error + (string \<times> 'v) option" where
  "dict_find d (PStr s) = Inr (case map_of d s of None \<Rightarrow> None | Some v \<Rightarrow> Some (s, v))"
| "dict_find d (PList xs) = Inl TypeError"
| "dict_find d PNone = Inr None"
| "dict_find d (PInt i) = Inr None"

text \<open>
  \<^verbatim>\<open>x in l\<close> for a list \<open>l\<close> of \<^verbatim>\<open>str\<close>: the elements are compared with \<^verbatim>\<open>==\<close>, which
  never raises, and only a \<^verbatim>\<open>str\<close> equals a \<^verbatim>\<open>str\<close>. A match is returned as a \<open>string\<close>.
\<close>

fun list_find :: "string list \<Rightarrow> pyval \<Rightarrow> string option" where
  "list_find l (PStr s) = (if s \<in> set l then Some s else None)"
| "list_find l (PList xs) = None"
| "list_find l PNone = None"
| "list_find l (PInt i) = None"

text \<open>\<^verbatim>\<open>set(v)\<close>: iterates \<open>v\<close> and hashes every element.\<close>

definition py_set :: "pyval \<Rightarrow> error + pyval set" where
  "py_set v = bind (py_iter v) (\<lambda>xs.
     if list_all hashable xs then Inr (set xs) else Inl TypeError)"

text \<open>\<^verbatim>\<open>v >= n\<close> for an integer literal \<open>n\<close>: defined for an \<^verbatim>\<open>int\<close> only.\<close>

fun py_ge :: "pyval \<Rightarrow> int \<Rightarrow> error + bool" where
  "py_ge (PInt i) n = Inr (n \<le> i)"
| "py_ge (PStr s) n = Inl TypeError"
| "py_ge (PList xs) n = Inl TypeError"
| "py_ge PNone n = Inl TypeError"

text \<open>\<^verbatim>\<open>d.get(k, dflt)\<close> on the patient record.\<close>

definition dict_get :: "(string \<rightharpoonup> pyval) \<Rightarrow> string \<Rightarrow> pyval \<Rightarrow> pyval" where
  "dict_get d k dflt = (case d k of None \<Rightarrow> dflt | Some v \<Rightarrow> v)"

text \<open>
  \<^verbatim>\<open>s.upper()\<close>, on ASCII: the letters a to z (bytes 97 to 122) are mapped to A to Z.
  The source applies it to the severities of the knowledge tables only.
\<close>

definition upper_char :: "char \<Rightarrow> char" where
  "upper_char c =
     (let n = (of_char c :: nat) in if 97 \<le> n \<and> n \<le> 122 then char_of (n - 32) else c)"

definition upper :: "string \<Rightarrow> string" where
  "upper s = map upper_char s"

subsection \<open>The knowledge tables\<close>

text \<open>
  Each table is the list of the items of the source's dictionary, in the order of the
  literal (the order in which Python iterates it). The inner dictionaries have fixed
  keys and are records.
\<close>

record genetic_rule =
  g_severity :: string
  g_recommendation :: string

record allergy_rule =
  a_medications :: "string list"
  a_severity :: string
  a_cross_reactivity :: "string list"

record interaction_rule =
  i_severity :: string
  i_warning :: string
  i_recommendation :: string

record comorbidity_rule =
  c_medications :: "string list"
  c_severity :: string
  c_recommendation :: string

definition GENETIC_ALERTS :: "(string \<times> (string \<times> genetic_rule) list) list" where
  "GENETIC_ALERTS =
    [(''CYP2C19 Poor Metabolizer'',
        [(''clopidogrel'',
           \<lparr>g_severity = ''high'',
            g_recommendation =
              ''Consider alternative antiplatelet therapy (e.g., prasugrel, ticagrelor).''\<rparr>)]),
     (''HLA-B*5701 Positive'',
        [(''abacavir'',
           \<lparr>g_severity = ''critical'',
            g_recommendation = ''Contraindicated. Do not prescribe abacavir.''\<rparr>)])]"

definition ALLERGY_ALERTS :: "(string \<times> allergy_rule) list" where
  "ALLERGY_ALERTS =
    [(''penicillin'',
        \<lparr>a_medications = [''amoxicillin'', ''ampicillin'', ''penicillin''],
         a_severity = ''high'',
         a_cross_reactivity = [''cephalosporins'']\<rparr>),
     (''sulfa'',
        \<lparr>a_medications = [''sulfamethoxazole'', ''sulfasalazine''],
         a_severity = ''moderate'',
         a_cross_reactivity = []\<rparr>)]"

definition DRUG_INTERACTIONS :: "((string \<times> string) \<times> interaction_rule) list" where
  "DRUG_INTERACTIONS =
    [((''warfarin'', ''amiodarone''),
        \<lparr>i_severity = ''high'',
         i_warning = ''Increased bleeding risk'',
         i_recommendation = ''Monitor INR closely and adjust warfarin dose as needed.''\<rparr>),
     ((''simvastatin'', ''clarithromycin''),
        \<lparr>i_severity = ''critical'',
         i_warning = ''Risk of rhabdomyolysis'',
         i_recommendation =
           ''Avoid combination; consider alternative statin or antibiotic.''\<rparr>)]"

definition COMORBIDITY_ALERTS :: "(string \<times> comorbidity_rule) list" where
  "COMORBIDITY_ALERTS =
    [(''chronic_kidney_disease'',
        \<lparr>c_medications = [''metformin'', ''NSAIDs''],
         c_severity = ''high'',
         c_recommendation = ''Avoid or adjust dose; monitor renal function.''\<rparr>),
     (''elderly'',
        \<lparr>c_medications = [''benzodiazepines'', ''anticholinergics''],
         c_severity = ''moderate'',
         c_recommendation = ''Use with caution; increased risk of falls and confusion.''\<rparr>)]"

text \<open>The entries of the tables, for reference in statements.\<close>

abbreviation CYP2C19_RULE :: genetic_rule where
  "CYP2C19_RULE \<equiv>
     \<lparr>g_severity = ''high'',
      g_recommendation =
        ''Consider alternative antiplatelet therapy (e.g., prasugrel, ticagrelor).''\<rparr>"

abbreviation HLA_RULE :: genetic_rule where
  "HLA_RULE \<equiv>
     \<lparr>g_severity = ''critical'',
      g_recommendation = ''Contraindicated. Do not prescribe abacavir.''\<rparr>"

abbreviation PENICILLIN_RULE :: allergy_rule where
  "PENICILLIN_RULE \<equiv>
     \<lparr>a_medications = [''amoxicillin'', ''ampicillin'', ''penicillin''], a_severity = ''high'',
      a_cross_reactivity = [''cephalosporins'']\<rparr>"

abbreviation SULFA_RULE :: allergy_rule where
  "SULFA_RULE \<equiv>
     \<lparr>a_medications = [''sulfamethoxazole'', ''sulfasalazine''], a_severity = ''moderate'',
      a_cross_reactivity = []\<rparr>"

abbreviation KIDNEY_RULE :: comorbidity_rule where
  "KIDNEY_RULE \<equiv>
     \<lparr>c_medications = [''metformin'', ''NSAIDs''], c_severity = ''high'',
      c_recommendation = ''Avoid or adjust dose; monitor renal function.''\<rparr>"

abbreviation ELDERLY_RULE :: comorbidity_rule where
  "ELDERLY_RULE \<equiv>
     \<lparr>c_medications = [''benzodiazepines'', ''anticholinergics''], c_severity = ''moderate'',
      c_recommendation = ''Use with caution; increased risk of falls and confusion.''\<rparr>"

subsection \<open>The alert texts\<close>

text \<open>The six f-strings of the source, one function each.\<close>

definition genetic_alert :: "string \<Rightarrow> string \<Rightarrow> genetic_rule \<Rightarrow> string" where
  "genetic_alert marker med info =
     ''['' @ upper (g_severity info) @ ''] Genetic alert: '' @ marker @ '' affects '' @ med
       @ ''. '' @ ''Recommendation: '' @ g_recommendation info"

definition allergy_alert :: "string \<Rightarrow> string \<Rightarrow> allergy_rule \<Rightarrow> string" where
  "allergy_alert allergy med allergy_info =
     ''['' @ upper (a_severity allergy_info) @ ''] Allergy alert: '' @ allergy
       @ '' allergy - avoid '' @ med @ ''.''"

definition cross_reactivity_alert :: "string \<Rightarrow> string \<Rightarrow> string" where
  "cross_reactivity_alert allergy med =
     ''[MODERATE] Cross-reactivity alert: '' @ allergy @ '' allergy may cross-react with ''
       @ med @ ''.''"

definition interaction_alert :: "string \<Rightarrow> string \<Rightarrow> interaction_rule \<Rightarrow> string" where
  "interaction_alert drug1 drug2 info =
     ''['' @ upper (i_severity info) @ ''] Interaction alert: '' @ drug1 @ '' + '' @ drug2
       @ '' - '' @ i_warning info @ ''. '' @ ''Recommendation: '' @ i_recommendation info"

definition comorbidity_alert :: "string \<Rightarrow> string \<Rightarrow> comorbidity_rule \<Rightarrow> string" where
  "comorbidity_alert comorb med info =
     ''['' @ upper (c_severity info) @ ''] Comorbidity alert: '' @ comorb @ '' with '' @ med
       @ ''. '' @ ''Recommendation: '' @ c_recommendation info"

definition age_alert :: "string \<Rightarrow> comorbidity_rule \<Rightarrow> string" where
  "age_alert med elderly_info =
     ''['' @ upper (c_severity elderly_info) @ ''] Age alert: Elderly patient with '' @ med
       @ ''. '' @ ''Recommendation: '' @ c_recommendation elderly_info"

subsection \<open>The checkers\<close>

text \<open>
  Each checker starts from \<^verbatim>\<open>alerts = []\<close> and appends in nested \<^verbatim>\<open>for\<close> loops.
  \<^verbatim>\<open>check_genetic_alerts\<close>:
  \<^verbatim>\<open>
  for marker in genetic_info:
      if marker in GENETIC_ALERTS:
          for med in medications:
              if med in GENETIC_ALERTS[marker]:
                  info = GENETIC_ALERTS[marker][med]
                  alerts.append(f"[{info['severity'].upper()}] Genetic alert: ...")
  \<close>
  The medications are iterated only under a marker that the table holds, so a value
  that cannot be iterated raises only then.
\<close>

definition check_genetic_alerts :: "pyval \<Rightarrow> pyval \<Rightarrow> error + string list" where
  "check_genetic_alerts genetic_info medications =
     bind (py_iter genetic_info) (\<lambda>markers.
       for_each markers (\<lambda>marker alerts.
         bind (dict_find GENETIC_ALERTS marker) (\<lambda>found.
           case found of
             None \<Rightarrow> Inr alerts
           | Some (marker, rules) \<Rightarrow>
               bind (py_iter medications) (\<lambda>meds.
                 for_each meds (\<lambda>med alerts.
                   bind (dict_find rules med) (\<lambda>found.
                     case found of
                       None \<Rightarrow> Inr alerts
                     | Some (med, info) \<Rightarrow>
                         Inr (alerts @ [genetic_alert marker med info])))
                   alerts)))
         [])"

text \<open>
  \<^verbatim>\<open>check_allergy_alerts\<close>:
  \<^verbatim>\<open>
  for allergy in allergies:
      if allergy in ALLERGY_ALERTS:
          allergy_info = ALLERGY_ALERTS[allergy]
          for med in medications:
              if med in allergy_info['medications']:
                  alerts.append(f"[{allergy_info['severity'].upper()}] Allergy alert: ...")
              if med in allergy_info['cross_reactivity']:
                  alerts.append(f"[MODERATE] Cross-reactivity alert: ...")
  \<close>
  \<open>allergy_med_step\<close> is the body of the inner loop: two \<^verbatim>\<open>if\<close> statements, one
  after the other, each a membership test in a list.
\<close>

definition allergy_med_step :: "string \<Rightarrow> allergy_rule \<Rightarrow> pyval \<Rightarrow> string list \<Rightarrow> string list" where
  "allergy_med_step allergy allergy_info med alerts =
     (let alerts = (case list_find (a_medications allergy_info) med of
                      None \<Rightarrow> alerts
                    | Some m \<Rightarrow> alerts @ [allergy_alert allergy m allergy_info]);
          alerts = (case list_find (a_cross_reactivity allergy_info) med of
                      None \<Rightarrow> alerts
                    | Some m \<Rightarrow> alerts @ [cross_reactivity_alert allergy m])
      in alerts)"

definition check_allergy_alerts :: "pyval \<Rightarrow> pyval \<Rightarrow> error + string list" where
  "check_allergy_alerts allergies medications =
     bind (py_iter allergies) (\<lambda>als.
       for_each als (\<lambda>allergy alerts.
         bind (dict_find ALLERGY_ALERTS allergy) (\<lambda>found.
           case found of
             None \<Rightarrow> Inr alerts
           | Some (allergy, allergy_info) \<Rightarrow>
               bind (py_iter medications) (\<lambda>meds.
                 for_each meds (\<lambda>med alerts.
                   Inr (allergy_med_step allergy allergy_info med alerts))
                   alerts)))
         [])"

text \<open>
  \<^verbatim>\<open>check_drug_interactions\<close>:
  \<^verbatim>\<open>
  meds = set(medications)
  for (drug1, drug2), info in DRUG_INTERACTIONS.items():
      if drug1 in meds and drug2 in meds:
          alerts.append(f"[{info['severity'].upper()}] Interaction alert: ...")
  \<close>
\<close>

definition check_drug_interactions :: "pyval \<Rightarrow> error + string list" where
  "check_drug_interactions medications =
     bind (py_set medications) (\<lambda>meds.
       for_each DRUG_INTERACTIONS (\<lambda>((drug1, drug2), info) alerts.
         if PStr drug1 \<in> meds \<and> PStr drug2 \<in> meds
         then Inr (alerts @ [interaction_alert drug1 drug2 info])
         else Inr alerts)
         [])"

text \<open>
  \<^verbatim>\<open>check_comorbidity_alerts\<close>: the loop over the comorbidities, then the age rule.
  \<^verbatim>\<open>
  for comorb in comorbidities:
      if comorb in COMORBIDITY_ALERTS:
          info = COMORBIDITY_ALERTS[comorb]
          for med in medications:
              if med in info['medications']:
                  alerts.append(f"[{info['severity'].upper()}] Comorbidity alert: ...")
  if age >= 65:
      elderly_info = COMORBIDITY_ALERTS.get('elderly')
      if elderly_info:
          for med in medications:
              if med in elderly_info['medications']:
                  alerts.append(f"[{elderly_info['severity'].upper()}] Age alert: ...")
  \<close>
\<close>

definition check_comorbidity_alerts :: "pyval \<Rightarrow> pyval \<Rightarrow> pyval \<Rightarrow> error + string list" where
  "check_comorbidity_alerts comorbidities medications age =
     bind (py_iter comorbidities) (\<lambda>comorbs.
     bind (for_each comorbs (\<lambda>comorb alerts.
             bind (dict_find COMORBIDITY_ALERTS comorb) (\<lambda>found.
               case found of
                 None \<Rightarrow> Inr alerts
               | Some (comorb, info) \<Rightarrow>
                   bind (py_iter medications) (\<lambda>meds.
                     for_each meds (\<lambda>med alerts.
                       case list_find (c_medications info) med of
                         None \<Rightarrow> Inr alerts
                       | Some med \<Rightarrow> Inr (alerts @ [comorbidity_alert comorb med info]))
                       alerts)))
             []) (\<lambda>alerts.
     bind (py_ge age 65) (\<lambda>old.
       if old then
         (case map_of COMORBIDITY_ALERTS ''elderly'' of
            None \<Rightarrow> Inr alerts
          | Some elderly_info \<Rightarrow>
              bind (py_iter medications) (\<lambda>meds.
                for_each meds (\<lambda>med alerts.
                  case list_find (c_medications elderly_info) med of
                    None \<Rightarrow> Inr alerts
                  | Some med \<Rightarrow> Inr (alerts @ [age_alert med elderly_info]))
                  alerts))
       else Inr alerts)))"

subsection \<open>The aggregator\<close>

text \<open>
  \<^verbatim>\<open>generate_contextual_alerts\<close> extends \<^verbatim>\<open>alerts\<close> with the result of each checker
  in turn (\<^verbatim>\<open>alerts += check_...(...)\<close>); every field is read with
  \<^verbatim>\<open>patient.get(key, [])\<close>, the age with \<^verbatim>\<open>patient.get('age', 0)\<close>.
\<close>

definition generate_contextual_alerts :: "(string \<rightharpoonup> pyval) \<Rightarrow> error + string list" where
  "generate_contextual_alerts patient =
     (let alerts = [] in
      bind (check_genetic_alerts (dict_get patient ''genetic_info'' (PList []))
              (dict_get patient ''medications'' (PList []))) (\<lambda>r.
      let alerts = alerts @ r in
      bind (check_allergy_alerts (dict_get patient ''allergies'' (PList []))
              (dict_get patient ''medications'' (PList []))) (\<lambda>r.
      let alerts = alerts @ r in
      bind (check_drug_interactions (dict_get patient ''medications'' (PList []))) (\<lambda>r.
      let alerts = alerts @ r in
      bind (check_comorbidity_alerts (dict_get patient ''comorbidities'' (PList []))
              (dict_get patient ''medications'' (PList []))
              (dict_get patient ''age'' (PInt 0))) (\<lambda>r.
      let alerts = alerts @ r in
      Inr alerts)))))"

text \<open>The record of the module's own example run (\<^verbatim>\<open>patient_data\<close>).\<close>

definition patient_data :: "string \<rightharpoonup> pyval" where
  "patient_data =
     [''genetic_info'' \<mapsto> PList [PStr ''CYP2C19 Poor Metabolizer''],
      ''allergies'' \<mapsto> PList [PStr ''penicillin''],
      ''medications'' \<mapsto> PList [PStr ''clopidogrel'', PStr ''amoxicillin'', PStr ''warfarin'',
                                PStr ''amiodarone'', PStr ''benzodiazepines''],
      ''comorbidities'' \<mapsto> PList [PStr ''chronic_kidney_disease''],
      ''age'' \<mapsto> PInt 70]"

subsection \<open>Well-typed arguments and the closed forms of the loops\<close>

text \<open>A \<^verbatim>\<open>List[str]\<close> argument, as the checkers' signatures announce it.\<close>

definition strs :: "string list \<Rightarrow> pyval" where
  "strs xs = PList (map PStr xs)"

text \<open>
  What each loop appends for one element of its list, when all arguments are lists of
  strings. The lemmas \<open>check_genetic_alerts_strs\<close>, \<open>check_allergy_alerts_strs\<close>,
  \<open>check_drug_interactions_strs\<close> and \<open>check_comorbidity_alerts_strs\<close> below prove that
  the checkers compute the concatenation of these contributions.
\<close>

definition genetic_alerts_for :: "string list \<Rightarrow> string \<Rightarrow> string list" where
  "genetic_alerts_for meds marker =
     (case map_of GENETIC_ALERTS marker of
        None \<Rightarrow> []
      | Some rules \<Rightarrow>
          concat (map (\<lambda>med. case map_of rules med of
                                None \<Rightarrow> []
                              | Some info \<Rightarrow> [genetic_alert marker med info]) meds))"

definition allergy_alerts_of_med :: "string \<Rightarrow> allergy_rule \<Rightarrow> string \<Rightarrow> string list" where
  "allergy_alerts_of_med allergy info med =
     (if med \<in> set (a_medications info) then [allergy_alert allergy med info] else []) @
     (if med \<in> set (a_cross_reactivity info) then [cross_reactivity_alert allergy med] else [])"

definition allergy_alerts_for :: "string list \<Rightarrow> string \<Rightarrow> string list" where
  "allergy_alerts_for meds allergy =
     (case map_of ALLERGY_ALERTS allergy of
        None \<Rightarrow> []
      | Some info \<Rightarrow> concat (map (allergy_alerts_of_med allergy info) meds))"

definition interaction_alerts_for ::
    "string set \<Rightarrow> (string \<times> string) \<times> interaction_rule \<Rightarrow> string list" where
  "interaction_alerts_for meds item =
     (case item of ((drug1, drug2), info) \<Rightarrow>
        if drug1 \<in> meds \<and> drug2 \<in> meds then [interaction_alert drug1 drug2 info] else [])"

definition comorbidity_alerts_for :: "string list \<Rightarrow> string \<Rightarrow> string list" where
  "comorbidity_alerts_for meds comorb =
     (case map_of COMORBIDITY_ALERTS comorb of
        None \<Rightarrow> []
      | Some info \<Rightarrow>
          concat (map (\<lambda>med. if med \<in> set (c_medications info)
                              then [comorbidity_alert comorb med info] else []) meds))"

definition age_alerts_for :: "string list \<Rightarrow> int \<Rightarrow> string list" where
  "age_alerts_for meds age =
     (if 65 \<le> age then
        (case map_of COMORBIDITY_ALERTS ''elderly'' of
           None \<Rightarrow> []
         | Some elderly_info \<Rightarrow>
             concat (map (\<lambda>med. if med \<in> set (c_medications elderly_info)
                                 then [age_alert med elderly_info] else []) meds))
      else [])"

text \<open>What the two nested loops append for one pair of elements.\<close>

definition genetic_pair :: "string \<Rightarrow> string \<Rightarrow> string list" where
  "genetic_pair marker med =
     (case map_of GENETIC_ALERTS marker of
        None \<Rightarrow> []
      | Some rules \<Rightarrow>
          (case map_of rules med of None \<Rightarrow> [] | Some info \<Rightarrow> [genetic_alert marker med info]))"

definition allergy_pair :: "string \<Rightarrow> string \<Rightarrow> string list" where
  "allergy_pair allergy med =
     (case map_of ALLERGY_ALERTS allergy of
        None \<Rightarrow> []
      | Some info \<Rightarrow> allergy_alerts_of_med allergy info med)"

definition comorbidity_pair :: "string \<Rightarrow> string \<Rightarrow> string list" where
  "comorbidity_pair comorb med =
     (case map_of COMORBIDITY_ALERTS comorb of
        None \<Rightarrow> []
      | Some info \<Rightarrow>
          if med \<in> set (c_medications info) then [comorbidity_alert comorb med info] else [])"

subsection \<open>Well-typed records\<close>

text \<open>
  A well-typed patient record: each of the four list fields, when present, is a list of
  \<^verbatim>\<open>str\<close>, and \<^verbatim>\<open>age\<close>, when present, is an \<^verbatim>\<open>int\<close>.
\<close>

fun is_str :: "pyval \<Rightarrow> bool" where
  "is_str (PStr s) = True"
| "is_str v = False"

fun is_str_list :: "pyval \<Rightarrow> bool" where
  "is_str_list (PList xs) = list_all is_str xs"
| "is_str_list v = False"

fun is_int :: "pyval \<Rightarrow> bool" where
  "is_int (PInt i) = True"
| "is_int v = False"

definition well_typed :: "(string \<rightharpoonup> pyval) \<Rightarrow> bool" where
  "well_typed patient \<longleftrightarrow>
     is_str_list (dict_get patient ''genetic_info'' (PList [])) \<and>
     is_str_list (dict_get patient ''allergies'' (PList [])) \<and>
     is_str_list (dict_get patient ''medications'' (PList [])) \<and>
     is_str_list (dict_get patient ''comorbidities'' (PList [])) \<and>
     is_int (dict_get patient ''age'' (PInt 0))"

subsection \<open>Recognising alerts\<close>

text \<open>
  An Age alert is an alert whose category, the text after the bracketed severity, is
  \<^verbatim>\<open>Age alert\<close>.
\<close>

definition is_age_alert :: "string \<Rightarrow> bool" where
  "is_age_alert a = sublist ''] Age alert: '' a"

text \<open>The two shapes of an alert text, with and without a recommendation.\<close>

abbreviation alert_with_recommendation :: "string \<Rightarrow> bool" where
  "alert_with_recommendation a \<equiv>
     \<exists>sev cat details text.
       a = ''['' @ sev @ ''] '' @ cat @ '' alert: '' @ details @ ''. Recommendation: '' @ text \<and>
       cat \<in> {''Genetic'', ''Interaction'', ''Comorbidity'', ''Age''}"

abbreviation alert_without_recommendation :: "string \<Rightarrow> bool" where
  "alert_without_recommendation a \<equiv>
     \<exists>sev cat details.
       a = ''['' @ sev @ ''] '' @ cat @ '' alert: '' @ details @ ''.'' \<and>
       cat \<in> {''Allergy'', ''Cross-reactivity''} \<and> \<not> sublist ''Recommendation'' a"

section \<open>Basic facts\<close>

lemma upper_high: "upper ''high'' = ''HIGH''"
  by code_simp

lemma upper_critical: "upper ''critical'' = ''CRITICAL''"
  by code_simp

lemma upper_moderate: "upper ''moderate'' = ''MODERATE''"
  by code_simp

lemma bind_Inr [simp]: "bind (Inr x) f = f x"
  by (simp add: bind_def)

lemma bind_Inl [simp]: "bind (Inl e) f = Inl e"
  by (simp add: bind_def)

lemma py_iter_strs [simp]: "py_iter (strs xs) = Inr (map PStr xs)"
  by (simp add: strs_def)

subsection \<open>Loops\<close>

lemma for_each_append:
  "(\<And>x s. x \<in> set xs \<Longrightarrow> body x s = Inr (s @ f x)) \<Longrightarrow>
     for_each xs body s = Inr (s @ concat (map f xs))"
  by (induction xs arbitrary: s) simp_all

lemma for_each_cong:
  "(\<And>x s. x \<in> set xs \<Longrightarrow> body x s = body' x s) \<Longrightarrow>
     for_each xs body s = for_each xs body' s"
  by (induction xs arbitrary: s) (simp_all split: sum.splits)

lemma for_each_filter:
  "(\<And>x s. x \<in> set xs \<Longrightarrow> \<not> keep x \<Longrightarrow> body x s = Inr s) \<Longrightarrow>
     for_each (filter keep xs) body s = for_each xs body s"
  by (induction xs arbitrary: s) (simp_all split: sum.splits)

lemma for_each_map: "for_each (map g xs) body s = for_each xs (\<lambda>x. body (g x)) s"
  by (induction xs arbitrary: s) (simp_all split: sum.splits)

subsection \<open>The checkers on lists of strings\<close>

lemma check_genetic_alerts_strs:
  "check_genetic_alerts (strs gi) (strs meds) = Inr (concat (map (genetic_alerts_for meds) gi))"
  unfolding check_genetic_alerts_def
  by (simp add: for_each_map genetic_alerts_for_def
        for_each_append [where f = "genetic_alerts_for meds"]
        for_each_append [where f = "\<lambda>med. case map_of rules med of None \<Rightarrow> []
                              | Some info \<Rightarrow> [genetic_alert marker med info]" for rules marker]
        split: option.splits)

lemma allergy_med_step_PStr:
  "allergy_med_step allergy info (PStr med) alerts = alerts @ allergy_alerts_of_med allergy info med"
  by (simp add: allergy_med_step_def allergy_alerts_of_med_def)

lemma check_allergy_alerts_strs:
  "check_allergy_alerts (strs als) (strs meds) = Inr (concat (map (allergy_alerts_for meds) als))"
  unfolding check_allergy_alerts_def
  by (simp add: for_each_map allergy_alerts_for_def allergy_med_step_PStr
        for_each_append [where f = "allergy_alerts_for meds"]
        for_each_append [where f = "allergy_alerts_of_med allergy info" for allergy info]
        split: option.splits)

lemma py_set_strs: "py_set (strs xs) = Inr (PStr ` set xs)"
  by (simp add: py_set_def list_all_iff)

lemma check_drug_interactions_strs:
  "check_drug_interactions (strs meds) =
     Inr (concat (map (interaction_alerts_for (set meds)) DRUG_INTERACTIONS))"
  unfolding check_drug_interactions_def
  by (simp add: py_set_strs image_iff interaction_alerts_for_def
        for_each_append [where f = "interaction_alerts_for (set meds)"] split: prod.splits)

lemma check_comorbidity_alerts_strs:
  "check_comorbidity_alerts (strs comorbs) (strs meds) (PInt age) =
     Inr (concat (map (comorbidity_alerts_for meds) comorbs) @ age_alerts_for meds age)"
  unfolding check_comorbidity_alerts_def
  by (simp add: for_each_map comorbidity_alerts_for_def age_alerts_for_def
        for_each_append [where f = "comorbidity_alerts_for meds"]
        for_each_append [where f = "\<lambda>med. if med \<in> set (c_medications info)
                              then [comorbidity_alert comorb med info] else []" for comorb info]
        for_each_append [where f = "\<lambda>med. if med \<in> set (c_medications info)
                              then [age_alert med info] else []" for info]
        split: option.splits)

lemmas kb_defs =
  GENETIC_ALERTS_def ALLERGY_ALERTS_def DRUG_INTERACTIONS_def COMORBIDITY_ALERTS_def

lemmas alert_defs =
  genetic_alert_def allergy_alert_def cross_reactivity_alert_def interaction_alert_def
  comorbidity_alert_def age_alert_def upper_high upper_critical upper_moderate

lemmas checker_defs =
  check_genetic_alerts_def check_allergy_alerts_def check_drug_interactions_def
  check_comorbidity_alerts_def allergy_med_step_def py_set_def

section \<open>The end-to-end scenario\<close>

text \<open>
  Claim C3, as amended. For the module's example record \<open>patient_data\<close> (marker CYP2C19
  Poor Metabolizer, allergy penicillin, medications clopidogrel, amoxicillin, warfarin,
  amiodarone and benzodiazepines, comorbidity chronic kidney disease, age 70), the
  aggregator returns exactly four alerts, in this order: the HIGH genetic alert for
  clopidogrel, the HIGH allergy alert for amoxicillin, the HIGH interaction alert for
  warfarin and amiodarone, and the MODERATE age alert for benzodiazepines; there is no
  comorbidity alert.
\<close>

theorem patient_data_four_alerts:
  "generate_contextual_alerts patient_data =
     Inr [''[HIGH] Genetic alert: CYP2C19 Poor Metabolizer affects clopidogrel. Recommendation: Consider alternative antiplatelet therapy (e.g., prasugrel, ticagrelor).'',
          ''[HIGH] Allergy alert: penicillin allergy - avoid amoxicillin.'',
          ''[HIGH] Interaction alert: warfarin + amiodarone - Increased bleeding risk. Recommendation: Monitor INR closely and adjust warfarin dose as needed.'',
          ''[MODERATE] Age alert: Elderly patient with benzodiazepines. Recommendation: Use with caution; increased risk of falls and confusion.'']"
  by (simp add: patient_data_def generate_contextual_alerts_def dict_get_def
        checker_defs kb_defs alert_defs)

text \<open>
  Claim C3 as stated asks for exactly five alerts; the list returned for \<open>patient_data\<close>
  has length four.
\<close>

theorem patient_data_not_five_alerts:
  "map_sum id length (generate_contextual_alerts patient_data) = Inr 4 \<and>
   map_sum id length (generate_contextual_alerts patient_data) \<noteq> Inr 5"
  by (simp add: patient_data_def generate_contextual_alerts_def dict_get_def
        checker_defs kb_defs alert_defs)

section \<open>No medications, no alerts\<close>

text \<open>
  Claim C9. When the medication list is empty, each of the four checkers returns the
  empty list, whatever the markers, allergies and comorbidities (lists of strings) and
  the age (an integer) are.
\<close>

theorem no_medications_no_alerts:
  "check_genetic_alerts (strs genetic_info) (PList []) = Inr [] \<and>
   check_allergy_alerts (strs allergies) (PList []) = Inr [] \<and>
   check_drug_interactions (PList []) = Inr [] \<and>
   check_comorbidity_alerts (strs comorbidities) (PList []) (PInt age) = Inr []"
proof -
  have e: "PList [] = strs []"
    by (simp add: strs_def)
  show ?thesis
    unfolding e check_genetic_alerts_strs check_allergy_alerts_strs
      check_drug_interactions_strs check_comorbidity_alerts_strs
    by (simp add: genetic_alerts_for_def allergy_alerts_for_def interaction_alerts_for_def
          comorbidity_alerts_for_def age_alerts_for_def split: option.splits prod.splits)
qed

section \<open>Drug interactions\<close>

lemma set_concat_map_iff: "a \<in> set (concat (map f xs)) \<longleftrightarrow> (\<exists>x\<in>set xs. a \<in> set (f x))"
  by auto

lemma interaction_cases:
  assumes "((drugA, drugB), info) \<in> set DRUG_INTERACTIONS"
  shows "(drugA = ''warfarin'' \<and> drugB = ''amiodarone'' \<and> info = snd (DRUG_INTERACTIONS ! 0)) \<or>
         (drugA = ''simvastatin'' \<and> drugB = ''clarithromycin'' \<and>
            info = snd (DRUG_INTERACTIONS ! 1))"
  using assms unfolding DRUG_INTERACTIONS_def by simp

lemma interaction_alert_warfarin:
  "interaction_alert ''warfarin'' ''amiodarone'' (snd (DRUG_INTERACTIONS ! 0)) =
     ''[HIGH] Interaction alert: warfarin + amiodarone - Increased bleeding risk. Recommendation: Monitor INR closely and adjust warfarin dose as needed.''"
  by (simp add: DRUG_INTERACTIONS_def interaction_alert_def upper_high)

lemma interaction_alert_simvastatin:
  "interaction_alert ''simvastatin'' ''clarithromycin'' (snd (DRUG_INTERACTIONS ! 1)) =
     ''[CRITICAL] Interaction alert: simvastatin + clarithromycin - Risk of rhabdomyolysis. Recommendation: Avoid combination; consider alternative statin or antibiotic.''"
  by (simp add: DRUG_INTERACTIONS_def interaction_alert_def upper_critical)

lemma interactions_unfold:
  "concat (map (interaction_alerts_for M) DRUG_INTERACTIONS) =
     (if ''warfarin'' \<in> M \<and> ''amiodarone'' \<in> M
      then [interaction_alert ''warfarin'' ''amiodarone'' (snd (DRUG_INTERACTIONS ! 0))]
      else []) @
     (if ''simvastatin'' \<in> M \<and> ''clarithromycin'' \<in> M
      then [interaction_alert ''simvastatin'' ''clarithromycin'' (snd (DRUG_INTERACTIONS ! 1))]
      else [])"
  by (simp add: DRUG_INTERACTIONS_def interaction_alerts_for_def)

lemma count_interaction_alert:
  assumes "((drugA, drugB), info) \<in> set DRUG_INTERACTIONS"
  shows "count_list (concat (map (interaction_alerts_for M) DRUG_INTERACTIONS))
           (interaction_alert drugA drugB info) = (if drugA \<in> M \<and> drugB \<in> M then 1 else 0)"
proof -
  consider
    (w) "drugA = ''warfarin''" "drugB = ''amiodarone''" "info = snd (DRUG_INTERACTIONS ! 0)"
  | (s) "drugA = ''simvastatin''" "drugB = ''clarithromycin''"
        "info = snd (DRUG_INTERACTIONS ! 1)"
    using interaction_cases [OF assms] by blast
  then show ?thesis
  proof cases
    case w
    show ?thesis
      unfolding w interactions_unfold interaction_alert_warfarin interaction_alert_simvastatin
      by simp
  next
    case s
    show ?thesis
      unfolding s interactions_unfold interaction_alert_warfarin interaction_alert_simvastatin
      by simp
  qed
qed

text \<open>
  Claim C1. For every pair (drugA, drugB) stored in \<open>DRUG_INTERACTIONS\<close>,
  \<open>check_drug_interactions\<close> emits the alert of that pair exactly once when both drugs
  are among the patient's medications and not at all when at most one of them is. The
  result depends on the set of medications only: any other list with the same elements,
  in whatever order, gives the same alerts.
\<close>

theorem interaction_pair_alert:
  assumes "((drugA, drugB), info) \<in> set DRUG_INTERACTIONS"
  shows "\<exists>alerts. check_drug_interactions (strs medications) = Inr alerts \<and>
           count_list alerts (interaction_alert drugA drugB info) =
             (if drugA \<in> set medications \<and> drugB \<in> set medications then 1 else 0) \<and>
           (\<forall>medications'. set medications' = set medications \<longrightarrow>
              check_drug_interactions (strs medications') = Inr alerts)"
  using count_interaction_alert [OF assms, of "set medications"]
  by (simp add: check_drug_interactions_strs)

theorem interaction_pair_alert_witness:
  "((''warfarin'', ''amiodarone''), snd (DRUG_INTERACTIONS ! 0)) \<in> set DRUG_INTERACTIONS \<and>
   (\<exists>alerts. check_drug_interactions (strs [''amiodarone'', ''aspirin'', ''warfarin'']) = Inr alerts \<and>
      count_list alerts
        (interaction_alert ''warfarin'' ''amiodarone'' (snd (DRUG_INTERACTIONS ! 0))) = 1) \<and>
   (\<exists>alerts. check_drug_interactions (strs [''warfarin'']) = Inr alerts \<and>
      count_list alerts
        (interaction_alert ''warfarin'' ''amiodarone'' (snd (DRUG_INTERACTIONS ! 0))) = 0)"
proof -
  have h: "((''warfarin'', ''amiodarone''), snd (DRUG_INTERACTIONS ! 0)) \<in> set DRUG_INTERACTIONS"
    by (simp add: DRUG_INTERACTIONS_def)
  show ?thesis
    using h interaction_pair_alert [OF h, of "[''amiodarone'', ''aspirin'', ''warfarin'']"]
      interaction_pair_alert [OF h, of "[''warfarin'']"]
    by simp blast
qed

section \<open>Allergies and cross-reactivity\<close>

text \<open>
  Claim C2. For every allergy of the patient that has an entry in \<open>ALLERGY_ALERTS\<close> and
  every medication of the patient listed in that entry's \<open>cross_reactivity\<close>,
  \<open>check_allergy_alerts\<close> emits the Cross-reactivity alert, whose severity label is the
  fixed text MODERATE whatever severity the entry stores. The direct Allergy alert for
  the same pair is emitted as well whenever the medication is also in the entry's
  \<open>medications\<close>: for any rule at all, the loop body appends the direct alert (if due)
  and then the cross-reactivity alert (if due), each test on its own.
\<close>

theorem cross_reactivity_moderate:
  assumes "allergy \<in> set allergies"
    and "map_of ALLERGY_ALERTS allergy = Some allergy_info"
    and "med \<in> set medications"
    and "med \<in> set (a_cross_reactivity allergy_info)"
  shows "(\<exists>alerts. check_allergy_alerts (strs allergies) (strs medications) = Inr alerts \<and>
            ''[MODERATE] Cross-reactivity alert: '' @ allergy @ '' allergy may cross-react with ''
               @ med @ ''.'' \<in> set alerts \<and>
            (med \<in> set (a_medications allergy_info) \<longrightarrow>
               allergy_alert allergy med allergy_info \<in> set alerts)) \<and>
         (\<forall>rule alerts0.
            allergy_med_step allergy rule (PStr med) alerts0 =
              alerts0 @
              (if med \<in> set (a_medications rule) then [allergy_alert allergy med rule] else []) @
              (if med \<in> set (a_cross_reactivity rule)
               then [''[MODERATE] Cross-reactivity alert: '' @ allergy
                       @ '' allergy may cross-react with '' @ med @ ''.'']
               else []))"
proof -
  let ?cross = "''[MODERATE] Cross-reactivity alert: '' @ allergy
                  @ '' allergy may cross-react with '' @ med @ ''.''"
  have cross: "cross_reactivity_alert allergy med = ?cross"
    by (simp add: cross_reactivity_alert_def)
  have "?cross \<in> set (allergy_alerts_of_med allergy allergy_info med)"
    using assms(4) by (simp add: allergy_alerts_of_med_def cross)
  then have 1: "?cross \<in> set (allergy_alerts_for medications allergy)"
    using assms(2,3) unfolding allergy_alerts_for_def by (simp del: append.simps) blast
  have 2: "allergy_alert allergy med allergy_info \<in> set (allergy_alerts_for medications allergy)"
    if "med \<in> set (a_medications allergy_info)"
  proof -
    have "allergy_alert allergy med allergy_info
            \<in> set (allergy_alerts_of_med allergy allergy_info med)"
      using that by (simp add: allergy_alerts_of_med_def)
    then show ?thesis
      using assms(2,3) unfolding allergy_alerts_for_def by simp blast
  qed
  have 3: "allergy_med_step allergy rule (PStr med) alerts0 =
              alerts0 @
              (if med \<in> set (a_medications rule) then [allergy_alert allergy med rule] else []) @
              (if med \<in> set (a_cross_reactivity rule) then [?cross] else [])" for rule alerts0
    unfolding allergy_med_step_PStr allergy_alerts_of_med_def cross by simp
  from 1 2 assms(1)
  have "?cross \<in> set (concat (map (allergy_alerts_for medications) allergies)) \<and>
     (med \<in> set (a_medications allergy_info) \<longrightarrow>
       allergy_alert allergy med allergy_info
         \<in> set (concat (map (allergy_alerts_for medications) allergies)))"
    unfolding set_concat_map_iff by blast
  with 3 show ?thesis
    unfolding check_allergy_alerts_strs by blast
qed

theorem cross_reactivity_moderate_witness:
  "''penicillin'' \<in> set [''penicillin''] \<and>
   map_of ALLERGY_ALERTS ''penicillin'' = Some (snd (ALLERGY_ALERTS ! 0)) \<and>
   ''cephalosporins'' \<in> set [''amoxicillin'', ''cephalosporins''] \<and>
   ''cephalosporins'' \<in> set (a_cross_reactivity (snd (ALLERGY_ALERTS ! 0))) \<and>
   a_severity (snd (ALLERGY_ALERTS ! 0)) = ''high'' \<and>
   check_allergy_alerts (strs [''penicillin'']) (strs [''amoxicillin'', ''cephalosporins'']) =
     Inr [''[HIGH] Allergy alert: penicillin allergy - avoid amoxicillin.'',
          ''[MODERATE] Cross-reactivity alert: penicillin allergy may cross-react with cephalosporins.''] \<and>
   allergy_med_step ''penicillin''
       \<lparr>a_medications = [''cephalosporins''], a_severity = ''critical'',
        a_cross_reactivity = [''cephalosporins'']\<rparr> (PStr ''cephalosporins'') [] =
     [''[CRITICAL] Allergy alert: penicillin allergy - avoid cephalosporins.'',
      ''[MODERATE] Cross-reactivity alert: penicillin allergy may cross-react with cephalosporins.'']"
proof -
  have h1: "''penicillin'' \<in> set [''penicillin'']"
    by simp
  have h2: "map_of ALLERGY_ALERTS ''penicillin'' = Some (snd (ALLERGY_ALERTS ! 0))"
    by (simp add: ALLERGY_ALERTS_def)
  have h3: "''cephalosporins'' \<in> set [''amoxicillin'', ''cephalosporins'']"
    by simp
  have h4: "''cephalosporins'' \<in> set (a_cross_reactivity (snd (ALLERGY_ALERTS ! 0)))"
    by (simp add: ALLERGY_ALERTS_def)
  have sev: "a_severity (snd (ALLERGY_ALERTS ! 0)) = ''high''"
    by (simp add: ALLERGY_ALERTS_def)
  have run: "check_allergy_alerts (strs [''penicillin'']) (strs [''amoxicillin'', ''cephalosporins'']) =
     Inr [''[HIGH] Allergy alert: penicillin allergy - avoid amoxicillin.'',
          ''[MODERATE] Cross-reactivity alert: penicillin allergy may cross-react with cephalosporins.'']"
    by (simp add: strs_def checker_defs kb_defs alert_defs)
  note inst = cross_reactivity_moderate [OF h1 h2 h3 h4]
  from inst have "allergy_med_step ''penicillin''
       \<lparr>a_medications = [''cephalosporins''], a_severity = ''critical'',
        a_cross_reactivity = [''cephalosporins'']\<rparr> (PStr ''cephalosporins'') [] =
     [''[CRITICAL] Allergy alert: penicillin allergy - avoid cephalosporins.'',
      ''[MODERATE] Cross-reactivity alert: penicillin allergy may cross-react with cephalosporins.'']"
    by (simp add: allergy_alert_def upper_critical)
  with h1 h2 h3 h4 sev run show ?thesis
    by blast
qed

section \<open>Comorbidities and age\<close>

lemma comorbidity_lookup:
  "map_of COMORBIDITY_ALERTS comorb =
     (if comorb = ''chronic_kidney_disease'' then Some KIDNEY_RULE
      else if comorb = ''elderly'' then Some ELDERLY_RULE else None)"
  by (simp add: COMORBIDITY_ALERTS_def)

lemma comorbidity_alert_kidney:
  "comorbidity_alert ''chronic_kidney_disease'' med KIDNEY_RULE =
     ''[HIGH] Comorbidity alert: chronic_kidney_disease with '' @ med @
     ''. Recommendation: Avoid or adjust dose; monitor renal function.''"
  by (simp add: comorbidity_alert_def upper_high)

lemma comorbidity_alert_elderly:
  "comorbidity_alert ''elderly'' med ELDERLY_RULE =
     ''[MODERATE] Comorbidity alert: elderly with '' @ med @
     ''. Recommendation: Use with caution; increased risk of falls and confusion.''"
  by (simp add: comorbidity_alert_def upper_moderate)

lemma age_alert_elderly:
  "age_alert med ELDERLY_RULE =
     ''[MODERATE] Age alert: Elderly patient with '' @ med @
     ''. Recommendation: Use with caution; increased risk of falls and confusion.''"
  by (simp add: age_alert_def upper_moderate)

lemma comorbidity_alerts_cases:
  assumes "a \<in> set (comorbidity_alerts_for meds comorb)"
  shows "a \<in> {''[HIGH] Comorbidity alert: chronic_kidney_disease with metformin. Recommendation: Avoid or adjust dose; monitor renal function.'',
              ''[HIGH] Comorbidity alert: chronic_kidney_disease with NSAIDs. Recommendation: Avoid or adjust dose; monitor renal function.'',
              ''[MODERATE] Comorbidity alert: elderly with benzodiazepines. Recommendation: Use with caution; increased risk of falls and confusion.'',
              ''[MODERATE] Comorbidity alert: elderly with anticholinergics. Recommendation: Use with caution; increased risk of falls and confusion.''}"
proof -
  consider (k) "comorb = ''chronic_kidney_disease''" | (e) "comorb = ''elderly''"
    | (n) "comorb \<noteq> ''chronic_kidney_disease''" "comorb \<noteq> ''elderly''"
    by blast
  then show ?thesis
  proof cases
    case k
    from assms obtain med where "med = ''metformin'' \<or> med = ''NSAIDs''"
      and "a = comorbidity_alert ''chronic_kidney_disease'' med KIDNEY_RULE"
      unfolding k comorbidity_alerts_for_def comorbidity_lookup
      by (auto split: if_splits)
    then show ?thesis
      unfolding comorbidity_alert_kidney by auto
  next
    case e
    from assms obtain med where "med = ''benzodiazepines'' \<or> med = ''anticholinergics''"
      and "a = comorbidity_alert ''elderly'' med ELDERLY_RULE"
      unfolding e comorbidity_alerts_for_def comorbidity_lookup
      by (auto split: if_splits)
    then show ?thesis
      unfolding comorbidity_alert_elderly by auto
  next
    case n
    with assms show ?thesis
      by (simp add: comorbidity_alerts_for_def comorbidity_lookup)
  qed
qed

lemma comorbidity_alert_not_age:
  assumes "a \<in> set (comorbidity_alerts_for meds comorb)"
  shows "\<not> is_age_alert a"
proof -
  have "\<not> is_age_alert ''[HIGH] Comorbidity alert: chronic_kidney_disease with metformin. Recommendation: Avoid or adjust dose; monitor renal function.''"
    by (simp add: is_age_alert_def sublist_Cons_right)
  moreover have "\<not> is_age_alert ''[HIGH] Comorbidity alert: chronic_kidney_disease with NSAIDs. Recommendation: Avoid or adjust dose; monitor renal function.''"
    by (simp add: is_age_alert_def sublist_Cons_right)
  moreover have "\<not> is_age_alert ''[MODERATE] Comorbidity alert: elderly with benzodiazepines. Recommendation: Use with caution; increased risk of falls and confusion.''"
    by (simp add: is_age_alert_def sublist_Cons_right)
  moreover have "\<not> is_age_alert ''[MODERATE] Comorbidity alert: elderly with anticholinergics. Recommendation: Use with caution; increased risk of falls and confusion.''"
    by (simp add: is_age_alert_def sublist_Cons_right)
  ultimately show ?thesis
    using comorbidity_alerts_cases [OF assms] by blast
qed

lemma age_alert_is_age_alert: "is_age_alert (age_alert med ELDERLY_RULE)"
  unfolding age_alert_elderly is_age_alert_def by (simp add: sublist_Cons_right)


lemma mem_concat_map_if:
  "x \<in> set xs \<Longrightarrow> P x \<Longrightarrow> g x \<in> set (concat (map (\<lambda>y. if P y then [g y] else []) xs))"
  by (induction xs) auto

lemma comorbidity_alerts_for_elderly:
  "comorbidity_alerts_for meds ''elderly'' =
     concat (map (\<lambda>med. if med \<in> set (c_medications ELDERLY_RULE)
                         then [comorbidity_alert ''elderly'' med ELDERLY_RULE] else []) meds)"
  unfolding comorbidity_alerts_for_def comorbidity_lookup by simp

lemma age_alerts_for_old:
  "65 \<le> age \<Longrightarrow> age_alerts_for meds age =
     concat (map (\<lambda>med. if med \<in> set (c_medications ELDERLY_RULE)
                         then [age_alert med ELDERLY_RULE] else []) meds)"
  unfolding age_alerts_for_def comorbidity_lookup by simp

lemma elderly_comorbidity_alert_mem:
  assumes "med \<in> set (c_medications ELDERLY_RULE)" and "med \<in> set meds"
  shows "comorbidity_alert ''elderly'' med ELDERLY_RULE \<in> set (comorbidity_alerts_for meds ''elderly'')"
  unfolding comorbidity_alerts_for_elderly
  using mem_concat_map_if [where g = "\<lambda>m. comorbidity_alert ''elderly'' m ELDERLY_RULE"
      and P = "\<lambda>m. m \<in> set (c_medications ELDERLY_RULE)", OF assms(2,1)] .

lemma age_alert_mem:
  assumes "med \<in> set (c_medications ELDERLY_RULE)" and "med \<in> set meds" and "65 \<le> age"
  shows "age_alert med ELDERLY_RULE \<in> set (age_alerts_for meds age)"
  unfolding age_alerts_for_old [OF assms(3)]
  using mem_concat_map_if [where g = "\<lambda>m. age_alert m ELDERLY_RULE"
      and P = "\<lambda>m. m \<in> set (c_medications ELDERLY_RULE)", OF assms(2,1)] .

lemma age_alerts_young: "age < 65 \<Longrightarrow> age_alerts_for meds age = []"
  by (simp add: age_alerts_for_def)

text \<open>
  Claim C6. When the comorbidity list contains \<open>elderly\<close>, the age is at least 65 and
  the patient takes a medication listed under the table's \<open>elderly\<close> entry,
  \<open>check_comorbidity_alerts\<close> returns a list that holds the Comorbidity alert for that
  medication at one position and the Age alert for it at a later position. The two
  alerts are different texts and both are kept: nothing is deduplicated.
\<close>

theorem elderly_comorbidity_and_age_alerts:
  assumes "''elderly'' \<in> set comorbidities"
    and "65 \<le> age"
    and "map_of COMORBIDITY_ALERTS ''elderly'' = Some info"
    and "med \<in> set (c_medications info)"
    and "med \<in> set medications"
  shows "\<exists>alerts.
           check_comorbidity_alerts (strs comorbidities) (strs medications) (PInt age) = Inr alerts \<and>
           (\<exists>i j. i < j \<and> j < length alerts \<and>
                  alerts ! i = comorbidity_alert ''elderly'' med info \<and>
                  alerts ! j = age_alert med info) \<and>
           comorbidity_alert ''elderly'' med info \<noteq> age_alert med info"
proof -
  let ?A = "concat (map (comorbidity_alerts_for medications) comorbidities)"
  let ?B = "age_alerts_for medications age"
  from assms(3) have info: "info = ELDERLY_RULE"
    by (simp add: comorbidity_lookup)
  have "comorbidity_alert ''elderly'' med info \<in> set ?A"
    using assms(1) elderly_comorbidity_alert_mem [of med medications] assms(4,5)
    unfolding info set_concat_map_iff by blast
  then obtain i where i: "i < length ?A" "?A ! i = comorbidity_alert ''elderly'' med info"
    unfolding in_set_conv_nth by blast
  have "age_alert med info \<in> set ?B"
    using age_alert_mem [of med medications age] assms(2,4,5) unfolding info by blast
  then obtain k where k: "k < length ?B" "?B ! k = age_alert med info"
    unfolding in_set_conv_nth by blast
  have "i < length ?A + k" "length ?A + k < length (?A @ ?B)"
    "(?A @ ?B) ! i = comorbidity_alert ''elderly'' med info"
    "(?A @ ?B) ! (length ?A + k) = age_alert med info"
    using i k by (simp_all add: nth_append)
  then have pos: "\<exists>i j. i < j \<and> j < length (?A @ ?B) \<and>
                  (?A @ ?B) ! i = comorbidity_alert ''elderly'' med info \<and>
                  (?A @ ?B) ! j = age_alert med info"
    by blast
  have "comorbidity_alert ''elderly'' med info \<noteq> age_alert med info"
    unfolding info comorbidity_alert_elderly age_alert_elderly by simp
  with pos show ?thesis
    unfolding check_comorbidity_alerts_strs by blast
qed

theorem elderly_comorbidity_and_age_alerts_witness:
  "''elderly'' \<in> set [''elderly''] \<and> (65::int) \<le> 65 \<and>
   map_of COMORBIDITY_ALERTS ''elderly'' = Some ELDERLY_RULE \<and>
   ''benzodiazepines'' \<in> set (c_medications ELDERLY_RULE) \<and>
   ''benzodiazepines'' \<in> set [''benzodiazepines''] \<and>
   check_comorbidity_alerts (strs [''elderly'']) (strs [''benzodiazepines'']) (PInt 65) =
     Inr [''[MODERATE] Comorbidity alert: elderly with benzodiazepines. Recommendation: Use with caution; increased risk of falls and confusion.'',
          ''[MODERATE] Age alert: Elderly patient with benzodiazepines. Recommendation: Use with caution; increased risk of falls and confusion.''] \<and>
   (\<exists>alerts.
      check_comorbidity_alerts (strs [''elderly'']) (strs [''benzodiazepines'']) (PInt 65) =
        Inr alerts \<and>
      (\<exists>i j. i < j \<and> j < length alerts \<and>
             alerts ! i = comorbidity_alert ''elderly'' ''benzodiazepines'' ELDERLY_RULE \<and>
             alerts ! j = age_alert ''benzodiazepines'' ELDERLY_RULE))"
proof -
  have h1: "''elderly'' \<in> set [''elderly'']"
    by simp
  have h2: "(65::int) \<le> 65"
    by simp
  have h3: "map_of COMORBIDITY_ALERTS ''elderly'' = Some ELDERLY_RULE"
    by (simp add: COMORBIDITY_ALERTS_def)
  have h4: "''benzodiazepines'' \<in> set (c_medications ELDERLY_RULE)"
    by simp
  have h5: "''benzodiazepines'' \<in> set [''benzodiazepines'']"
    by simp
  have run: "check_comorbidity_alerts (strs [''elderly'']) (strs [''benzodiazepines'']) (PInt 65) =
     Inr [''[MODERATE] Comorbidity alert: elderly with benzodiazepines. Recommendation: Use with caution; increased risk of falls and confusion.'',
          ''[MODERATE] Age alert: Elderly patient with benzodiazepines. Recommendation: Use with caution; increased risk of falls and confusion.'']"
    by (simp add: strs_def checker_defs kb_defs alert_defs)
  from elderly_comorbidity_and_age_alerts [OF h1 h2 h3 h4 h5]
  have "\<exists>alerts.
      check_comorbidity_alerts (strs [''elderly'']) (strs [''benzodiazepines'']) (PInt 65) =
        Inr alerts \<and>
      (\<exists>i j. i < j \<and> j < length alerts \<and>
             alerts ! i = comorbidity_alert ''elderly'' ''benzodiazepines'' ELDERLY_RULE \<and>
             alerts ! j = age_alert ''benzodiazepines'' ELDERLY_RULE)"
    by blast
  with h1 h2 h3 h4 h5 run show ?thesis
    by blast
qed

text \<open>
  Claim C7. For a medication of the table's \<open>elderly\<close> entry that the patient takes,
  \<open>check_comorbidity_alerts\<close> emits the Age alert for it exactly when the age is at
  least 65, and the result holds an Age alert at all exactly when the age is at least
  65; the other arguments are the same on both sides. So age 65 gives the alert, and
  age 64, zero and negative ages give none.
\<close>

theorem age_alert_threshold:
  assumes "map_of COMORBIDITY_ALERTS ''elderly'' = Some info"
    and "med \<in> set (c_medications info)"
    and "med \<in> set medications"
  shows "\<exists>alerts.
           check_comorbidity_alerts (strs comorbidities) (strs medications) (PInt age) = Inr alerts \<and>
           (age_alert med info \<in> set alerts \<longleftrightarrow> 65 \<le> age) \<and>
           ((\<exists>a\<in>set alerts. is_age_alert a) \<longleftrightarrow> 65 \<le> age)"
proof -
  let ?A = "concat (map (comorbidity_alerts_for medications) comorbidities)"
  let ?B = "age_alerts_for medications age"
  from assms(1) have info: "info = ELDERLY_RULE"
    by (simp add: comorbidity_lookup)
  have A: "\<not> is_age_alert a" if "a \<in> set ?A" for a
    using that comorbidity_alert_not_age unfolding set_concat_map_iff by blast
  have is_age: "is_age_alert (age_alert med info)"
    unfolding info by (rule age_alert_is_age_alert)
  show ?thesis
  proof (cases "65 \<le> age")
    case True
    then have "age_alert med info \<in> set ?B"
      using age_alert_mem [of med medications age] assms(2,3) unfolding info by blast
    then have "age_alert med info \<in> set (?A @ ?B)"
      by simp
    with True is_age show ?thesis
      unfolding check_comorbidity_alerts_strs by blast
  next
    case False
    then have "?B = []"
      by (simp add: age_alerts_young)
    then have "\<forall>a\<in>set (?A @ ?B). \<not> is_age_alert a"
      using A by simp
    with False is_age show ?thesis
      unfolding check_comorbidity_alerts_strs by blast
  qed
qed

theorem age_alert_threshold_witness:
  "map_of COMORBIDITY_ALERTS ''elderly'' = Some ELDERLY_RULE \<and>
   ''benzodiazepines'' \<in> set (c_medications ELDERLY_RULE) \<and>
   ''benzodiazepines'' \<in> set [''benzodiazepines''] \<and>
   check_comorbidity_alerts (strs []) (strs [''benzodiazepines'']) (PInt 65) =
     Inr [''[MODERATE] Age alert: Elderly patient with benzodiazepines. Recommendation: Use with caution; increased risk of falls and confusion.''] \<and>
   check_comorbidity_alerts (strs []) (strs [''benzodiazepines'']) (PInt 64) = Inr [] \<and>
   check_comorbidity_alerts (strs []) (strs [''benzodiazepines'']) (PInt 0) = Inr [] \<and>
   check_comorbidity_alerts (strs []) (strs [''benzodiazepines'']) (PInt (- 7)) = Inr [] \<and>
   (\<exists>alerts.
      check_comorbidity_alerts (strs []) (strs [''benzodiazepines'']) (PInt 65) = Inr alerts \<and>
      (\<exists>a\<in>set alerts. is_age_alert a)) \<and>
   (\<exists>alerts.
      check_comorbidity_alerts (strs []) (strs [''benzodiazepines'']) (PInt 64) = Inr alerts \<and>
      \<not> (\<exists>a\<in>set alerts. is_age_alert a))"
proof -
  have h1: "map_of COMORBIDITY_ALERTS ''elderly'' = Some ELDERLY_RULE"
    by (simp add: COMORBIDITY_ALERTS_def)
  have h2: "''benzodiazepines'' \<in> set (c_medications ELDERLY_RULE)"
    by simp
  have h3: "''benzodiazepines'' \<in> set [''benzodiazepines'']"
    by simp
  have run65: "check_comorbidity_alerts (strs []) (strs [''benzodiazepines'']) (PInt 65) =
     Inr [''[MODERATE] Age alert: Elderly patient with benzodiazepines. Recommendation: Use with caution; increased risk of falls and confusion.'']"
    by (simp add: strs_def checker_defs kb_defs alert_defs)
  have run64: "check_comorbidity_alerts (strs []) (strs [''benzodiazepines'']) (PInt 64) = Inr []"
    by (simp add: strs_def checker_defs kb_defs alert_defs)
  have run0: "check_comorbidity_alerts (strs []) (strs [''benzodiazepines'']) (PInt 0) = Inr []"
    by (simp add: strs_def checker_defs kb_defs alert_defs)
  have runneg: "check_comorbidity_alerts (strs []) (strs [''benzodiazepines'']) (PInt (- 7)) = Inr []"
    by (simp add: strs_def checker_defs kb_defs alert_defs)
  from age_alert_threshold [OF h1 h2 h3, of "[]" 65]
  have a65: "\<exists>alerts.
      check_comorbidity_alerts (strs []) (strs [''benzodiazepines'']) (PInt 65) = Inr alerts \<and>
      (\<exists>a\<in>set alerts. is_age_alert a)"
    by (simp; blast)
  from age_alert_threshold [OF h1 h2 h3, of "[]" 64]
  have a64: "\<exists>alerts.
      check_comorbidity_alerts (strs []) (strs [''benzodiazepines'']) (PInt 64) = Inr alerts \<and>
      \<not> (\<exists>a\<in>set alerts. is_age_alert a)"
    by (simp; blast)
  from h1 h2 h3 run65 run64 run0 runneg a65 a64 show ?thesis
    by blast
qed

section \<open>Repeated names in the patient's lists\<close>

lemma genetic_alerts_for_pairs:
  "genetic_alerts_for meds marker = concat (map (genetic_pair marker) meds)"
  by (cases "map_of GENETIC_ALERTS marker") (simp_all add: genetic_alerts_for_def genetic_pair_def [abs_def])

lemma allergy_alerts_for_pairs:
  "allergy_alerts_for meds allergy = concat (map (allergy_pair allergy) meds)"
  by (cases "map_of ALLERGY_ALERTS allergy") (simp_all add: allergy_alerts_for_def allergy_pair_def [abs_def])

lemma comorbidity_alerts_for_pairs:
  "comorbidity_alerts_for meds comorb = concat (map (comorbidity_pair comorb) meds)"
  by (cases "map_of COMORBIDITY_ALERTS comorb")
    (simp_all add: comorbidity_alerts_for_def comorbidity_pair_def [abs_def])

lemma count_list_concat_map:
  "count_list (concat (map f xs)) a = sum_list (map (\<lambda>x. count_list (f x) a) xs)"
  by (induction xs) simp_all

lemma sum_list_count:
  "sum_list (map (\<lambda>x. if x = y then c else 0) xs) = count_list xs y * (c::nat)"
  by (induction xs) simp_all

lemma count_pairs:
  assumes "\<And>x y. count_list (h x y) a = (if x = x0 \<and> y = y0 then 1 else 0)"
  shows "count_list (concat (map (\<lambda>x. concat (map (h x) ys)) xs)) a =
           count_list xs x0 * count_list ys y0"
proof -
  have inner: "count_list (concat (map (h x) ys)) a = (if x = x0 then count_list ys y0 else 0)"
    for x
  proof -
    have "count_list (concat (map (h x) ys)) a =
            sum_list (map (\<lambda>y. if y = y0 then (if x = x0 then 1 else 0) else 0) ys)"
      unfolding count_list_concat_map assms
      by (rule arg_cong [where f = sum_list]) auto
    then show ?thesis
      unfolding sum_list_count by simp
  qed
  show ?thesis
    unfolding count_list_concat_map [where f = "\<lambda>x. concat (map (h x) ys)"] inner sum_list_count
    by simp
qed

lemma count_single:
  assumes "\<And>y. count_list (h y) a = (if y = y0 then 1 else 0)"
  shows "count_list (concat (map h ys)) a = count_list ys y0"
  unfolding count_list_concat_map assms sum_list_count by simp


lemma genetic_lookup:
  "map_of GENETIC_ALERTS marker =
     (if marker = ''CYP2C19 Poor Metabolizer'' then Some [(''clopidogrel'', CYP2C19_RULE)]
      else if marker = ''HLA-B*5701 Positive'' then Some [(''abacavir'', HLA_RULE)] else None)"
  by (simp add: GENETIC_ALERTS_def)

lemma genetic_alert_CYP2C19:
  "genetic_alert ''CYP2C19 Poor Metabolizer'' med CYP2C19_RULE =
     ''[HIGH] Genetic alert: CYP2C19 Poor Metabolizer affects '' @ med @
     ''. Recommendation: Consider alternative antiplatelet therapy (e.g., prasugrel, ticagrelor).''"
  by (simp add: genetic_alert_def upper_high)

lemma genetic_alert_HLA:
  "genetic_alert ''HLA-B*5701 Positive'' med HLA_RULE =
     ''[CRITICAL] Genetic alert: HLA-B*5701 Positive affects '' @ med @
     ''. Recommendation: Contraindicated. Do not prescribe abacavir.''"
  by (simp add: genetic_alert_def upper_critical)

lemma genetic_pair_unfold:
  "genetic_pair marker med =
     (if marker = ''CYP2C19 Poor Metabolizer'' \<and> med = ''clopidogrel''
      then [genetic_alert ''CYP2C19 Poor Metabolizer'' ''clopidogrel'' CYP2C19_RULE]
      else if marker = ''HLA-B*5701 Positive'' \<and> med = ''abacavir''
      then [genetic_alert ''HLA-B*5701 Positive'' ''abacavir'' HLA_RULE]
      else [])"
  unfolding genetic_pair_def genetic_lookup by simp

lemma genetic_cases:
  assumes "map_of GENETIC_ALERTS marker = Some rules" and "map_of rules med = Some info"
  shows "(marker = ''CYP2C19 Poor Metabolizer'' \<and> med = ''clopidogrel'' \<and> info = CYP2C19_RULE) \<or>
         (marker = ''HLA-B*5701 Positive'' \<and> med = ''abacavir'' \<and> info = HLA_RULE)"
proof -
  consider (c) "marker = ''CYP2C19 Poor Metabolizer''" | (h) "marker = ''HLA-B*5701 Positive''"
    | (n) "marker \<noteq> ''CYP2C19 Poor Metabolizer''" "marker \<noteq> ''HLA-B*5701 Positive''"
    by blast
  then show ?thesis
  proof cases
    case c
    with assms(1) have "rules = [(''clopidogrel'', CYP2C19_RULE)]"
      unfolding genetic_lookup by simp
    with assms(2) c show ?thesis
      by (simp split: if_splits)
  next
    case h
    with assms(1) have "rules = [(''abacavir'', HLA_RULE)]"
      unfolding genetic_lookup by simp
    with assms(2) h show ?thesis
      by (simp split: if_splits)
  next
    case n
    with assms(1) show ?thesis
      unfolding genetic_lookup by simp
  qed
qed

lemma count_genetic_pair:
  assumes "map_of GENETIC_ALERTS marker0 = Some rules" and "map_of rules med0 = Some info"
  shows "count_list (genetic_pair marker med) (genetic_alert marker0 med0 info) =
           (if marker = marker0 \<and> med = med0 then 1 else 0)"
proof -
  consider
    (c) "marker0 = ''CYP2C19 Poor Metabolizer''" "med0 = ''clopidogrel''" "info = CYP2C19_RULE"
  | (h) "marker0 = ''HLA-B*5701 Positive''" "med0 = ''abacavir''" "info = HLA_RULE"
    using genetic_cases [OF assms] by blast
  then show ?thesis
  proof cases
    case c
    show ?thesis
      unfolding c genetic_pair_unfold genetic_alert_CYP2C19 genetic_alert_HLA by simp
  next
    case h
    show ?thesis
      unfolding h genetic_pair_unfold genetic_alert_CYP2C19 genetic_alert_HLA by simp
  qed
qed


lemma allergy_lookup:
  "map_of ALLERGY_ALERTS allergy =
     (if allergy = ''penicillin'' then Some PENICILLIN_RULE
      else if allergy = ''sulfa'' then Some SULFA_RULE else None)"
  by (simp add: ALLERGY_ALERTS_def)

lemma allergy_alert_penicillin:
  "allergy_alert ''penicillin'' med PENICILLIN_RULE =
     ''[HIGH] Allergy alert: penicillin allergy - avoid '' @ med @ ''.''"
  by (simp add: allergy_alert_def upper_high)

lemma allergy_alert_sulfa:
  "allergy_alert ''sulfa'' med SULFA_RULE =
     ''[MODERATE] Allergy alert: sulfa allergy - avoid '' @ med @ ''.''"
  by (simp add: allergy_alert_def upper_moderate)

lemma allergy_pair_penicillin:
  "allergy_pair ''penicillin'' med =
     (if med \<in> set (a_medications PENICILLIN_RULE)
      then [allergy_alert ''penicillin'' med PENICILLIN_RULE] else []) @
     (if med = ''cephalosporins'' then [cross_reactivity_alert ''penicillin'' med] else [])"
  unfolding allergy_pair_def allergy_lookup allergy_alerts_of_med_def by simp

lemma allergy_pair_sulfa:
  "allergy_pair ''sulfa'' med =
     (if med \<in> set (a_medications SULFA_RULE)
      then [allergy_alert ''sulfa'' med SULFA_RULE] else [])"
  unfolding allergy_pair_def allergy_lookup allergy_alerts_of_med_def by simp

lemma allergy_pair_other:
  "allergy \<noteq> ''penicillin'' \<Longrightarrow> allergy \<noteq> ''sulfa'' \<Longrightarrow> allergy_pair allergy med = []"
  unfolding allergy_pair_def allergy_lookup by simp

lemma count_allergy_pair_direct:
  assumes "map_of ALLERGY_ALERTS allergy0 = Some info" and "med0 \<in> set (a_medications info)"
  shows "count_list (allergy_pair allergy med) (allergy_alert allergy0 med0 info) =
           (if allergy = allergy0 \<and> med = med0 then 1 else 0)"
proof -
  consider (p) "allergy0 = ''penicillin''" "info = PENICILLIN_RULE"
    | (s) "allergy0 = ''sulfa''" "info = SULFA_RULE"
    using assms(1) unfolding allergy_lookup by (simp split: if_splits)
  then show ?thesis
  proof cases
    case p
    from assms(2) have m0: "med0 \<in> set (a_medications PENICILLIN_RULE)"
      unfolding p .
    consider "allergy = ''penicillin''" | "allergy = ''sulfa''"
      | "allergy \<noteq> ''penicillin''" "allergy \<noteq> ''sulfa''"
      by blast
    then show ?thesis
    proof cases
      case 1
      have "count_list (allergy_pair ''penicillin'' med)
              (allergy_alert ''penicillin'' med0 PENICILLIN_RULE) = (if med = med0 then 1 else 0)"
        using m0 unfolding allergy_pair_penicillin allergy_alert_penicillin
          cross_reactivity_alert_def
        by (simp del: set_simps)
      then show ?thesis
        unfolding p 1 by simp
    next
      case 2
      have "count_list (allergy_pair ''sulfa'' med)
              (allergy_alert ''penicillin'' med0 PENICILLIN_RULE) = 0"
        unfolding allergy_pair_sulfa allergy_alert_penicillin allergy_alert_sulfa
        by (simp del: set_simps)
      then show ?thesis
        unfolding p 2 by simp
    next
      case 3
      then show ?thesis
        unfolding p by (auto simp add: allergy_pair_other)
    qed
  next
    case s
    from assms(2) have m0: "med0 \<in> set (a_medications SULFA_RULE)"
      unfolding s .
    consider "allergy = ''penicillin''" | "allergy = ''sulfa''"
      | "allergy \<noteq> ''penicillin''" "allergy \<noteq> ''sulfa''"
      by blast
    then show ?thesis
    proof cases
      case 1
      have "count_list (allergy_pair ''penicillin'' med)
              (allergy_alert ''sulfa'' med0 SULFA_RULE) = 0"
        unfolding allergy_pair_penicillin allergy_alert_penicillin allergy_alert_sulfa
          cross_reactivity_alert_def
        by (simp del: set_simps)
      then show ?thesis
        unfolding s 1 by simp
    next
      case 2
      have "count_list (allergy_pair ''sulfa'' med)
              (allergy_alert ''sulfa'' med0 SULFA_RULE) = (if med = med0 then 1 else 0)"
        using m0 unfolding allergy_pair_sulfa allergy_alert_sulfa
        by (simp del: set_simps)
      then show ?thesis
        unfolding s 2 by simp
    next
      case 3
      then show ?thesis
        unfolding s by (auto simp add: allergy_pair_other)
    qed
  qed
qed

lemma count_allergy_pair_cross:
  assumes "map_of ALLERGY_ALERTS allergy0 = Some info"
    and "med0 \<in> set (a_cross_reactivity info)"
  shows "count_list (allergy_pair allergy med) (cross_reactivity_alert allergy0 med0) =
           (if allergy = allergy0 \<and> med = med0 then 1 else 0)"
proof -
  have 0: "allergy0 = ''penicillin''" "med0 = ''cephalosporins''"
    using assms unfolding allergy_lookup by (auto split: if_splits)
  consider "allergy = ''penicillin''" | "allergy = ''sulfa''"
    | "allergy \<noteq> ''penicillin''" "allergy \<noteq> ''sulfa''"
    by blast
  then show ?thesis
  proof cases
    case 1
    have "count_list (allergy_pair ''penicillin'' med)
            (cross_reactivity_alert ''penicillin'' ''cephalosporins'') =
              (if med = ''cephalosporins'' then 1 else 0)"
      unfolding allergy_pair_penicillin allergy_alert_penicillin cross_reactivity_alert_def
      by (simp del: set_simps)
    then show ?thesis
      unfolding 0 1 by simp
  next
    case 2
    have "count_list (allergy_pair ''sulfa'' med)
            (cross_reactivity_alert ''penicillin'' ''cephalosporins'') = 0"
      unfolding allergy_pair_sulfa allergy_alert_sulfa cross_reactivity_alert_def
      by (simp del: set_simps)
    then show ?thesis
      unfolding 0 2 by simp
  next
    case 3
    then show ?thesis
      unfolding 0 by (auto simp add: allergy_pair_other)
  qed
qed


lemma comorbidity_pair_kidney:
  "comorbidity_pair ''chronic_kidney_disease'' med =
     (if med \<in> set (c_medications KIDNEY_RULE)
      then [comorbidity_alert ''chronic_kidney_disease'' med KIDNEY_RULE] else [])"
  unfolding comorbidity_pair_def comorbidity_lookup by simp

lemma comorbidity_pair_elderly:
  "comorbidity_pair ''elderly'' med =
     (if med \<in> set (c_medications ELDERLY_RULE)
      then [comorbidity_alert ''elderly'' med ELDERLY_RULE] else [])"
  unfolding comorbidity_pair_def comorbidity_lookup by simp

lemma comorbidity_pair_other:
  "comorb \<noteq> ''chronic_kidney_disease'' \<Longrightarrow> comorb \<noteq> ''elderly'' \<Longrightarrow>
     comorbidity_pair comorb med = []"
  unfolding comorbidity_pair_def comorbidity_lookup by simp

lemma count_comorbidity_pair:
  assumes "map_of COMORBIDITY_ALERTS comorb0 = Some info" and "med0 \<in> set (c_medications info)"
  shows "count_list (comorbidity_pair comorb med) (comorbidity_alert comorb0 med0 info) =
           (if comorb = comorb0 \<and> med = med0 then 1 else 0)"
proof -
  consider (k) "comorb0 = ''chronic_kidney_disease''" "info = KIDNEY_RULE"
    | (e) "comorb0 = ''elderly''" "info = ELDERLY_RULE"
    using assms(1) unfolding comorbidity_lookup by (simp split: if_splits)
  then show ?thesis
  proof cases
    case k
    from assms(2) have m0: "med0 \<in> set (c_medications KIDNEY_RULE)"
      unfolding k .
    consider "comorb = ''chronic_kidney_disease''" | "comorb = ''elderly''"
      | "comorb \<noteq> ''chronic_kidney_disease''" "comorb \<noteq> ''elderly''"
      by blast
    then show ?thesis
    proof cases
      case 1
      have "count_list (comorbidity_pair ''chronic_kidney_disease'' med)
              (comorbidity_alert ''chronic_kidney_disease'' med0 KIDNEY_RULE) =
                (if med = med0 then 1 else 0)"
        using m0 unfolding comorbidity_pair_kidney comorbidity_alert_kidney
        by (simp del: set_simps)
      then show ?thesis
        unfolding k 1 by simp
    next
      case 2
      have "count_list (comorbidity_pair ''elderly'' med)
              (comorbidity_alert ''chronic_kidney_disease'' med0 KIDNEY_RULE) = 0"
        unfolding comorbidity_pair_elderly comorbidity_alert_kidney comorbidity_alert_elderly
        by (simp del: set_simps)
      then show ?thesis
        unfolding k 2 by simp
    next
      case 3
      then show ?thesis
        unfolding k by (auto simp add: comorbidity_pair_other)
    qed
  next
    case e
    from assms(2) have m0: "med0 \<in> set (c_medications ELDERLY_RULE)"
      unfolding e .
    consider "comorb = ''chronic_kidney_disease''" | "comorb = ''elderly''"
      | "comorb \<noteq> ''chronic_kidney_disease''" "comorb \<noteq> ''elderly''"
      by blast
    then show ?thesis
    proof cases
      case 1
      have "count_list (comorbidity_pair ''chronic_kidney_disease'' med)
              (comorbidity_alert ''elderly'' med0 ELDERLY_RULE) = 0"
        unfolding comorbidity_pair_kidney comorbidity_alert_kidney comorbidity_alert_elderly
        by (simp del: set_simps)
      then show ?thesis
        unfolding e 1 by simp
    next
      case 2
      have "count_list (comorbidity_pair ''elderly'' med)
              (comorbidity_alert ''elderly'' med0 ELDERLY_RULE) = (if med = med0 then 1 else 0)"
        using m0 unfolding comorbidity_pair_elderly comorbidity_alert_elderly
        by (simp del: set_simps)
      then show ?thesis
        unfolding e 2 by simp
    next
      case 3
      then show ?thesis
        unfolding e by (auto simp add: comorbidity_pair_other)
    qed
  qed
qed

lemma count_age_alert_in_comorbidity_alerts:
  "count_list (concat (map (comorbidity_alerts_for meds) comorbs)) (age_alert med ELDERLY_RULE) = 0"
proof -
  have "age_alert med ELDERLY_RULE \<notin> set (concat (map (comorbidity_alerts_for meds) comorbs))"
    using comorbidity_alert_not_age age_alert_is_age_alert unfolding set_concat_map_iff by blast
  then show ?thesis
    unfolding count_list_0_iff .
qed

lemma count_age_alert:
  assumes "med0 \<in> set (c_medications ELDERLY_RULE)" and "65 \<le> age"
  shows "count_list (age_alerts_for meds age) (age_alert med0 ELDERLY_RULE) = count_list meds med0"
proof -
  have "count_list (if med \<in> set (c_medications ELDERLY_RULE)
                    then [age_alert med ELDERLY_RULE] else []) (age_alert med0 ELDERLY_RULE) =
          (if med = med0 then 1 else 0)" for med
    using assms(1) unfolding age_alert_elderly by (simp del: set_simps)
  then show ?thesis
    unfolding age_alerts_for_old [OF assms(2)]
    by (rule count_single
         [where h = "\<lambda>med. if med \<in> set (c_medications ELDERLY_RULE)
                             then [age_alert med ELDERLY_RULE] else []"])
qed

lemma count_comorbidity_alert_in_age_alerts:
  assumes "map_of COMORBIDITY_ALERTS comorb0 = Some info" and "med0 \<in> set (c_medications info)"
  shows "count_list (age_alerts_for meds age) (comorbidity_alert comorb0 med0 info) = 0"
proof -
  let ?a = "comorbidity_alert comorb0 med0 info"
  have "?a \<in> set (comorbidity_pair comorb0 med0)"
    using assms by (simp add: comorbidity_pair_def)
  then have "?a \<in> set (comorbidity_alerts_for [med0] comorb0)"
    unfolding comorbidity_alerts_for_pairs by simp
  then have not_age: "\<not> is_age_alert ?a"
    by (rule comorbidity_alert_not_age)
  have "?a \<notin> set (age_alerts_for meds age)"
  proof (cases "65 \<le> age")
    case True
    have "is_age_alert a" if "a \<in> set (age_alerts_for meds age)" for a
      using that age_alert_is_age_alert unfolding age_alerts_for_old [OF True]
      by (auto split: if_splits)
    with not_age show ?thesis
      by blast
  next
    case False
    then show ?thesis
      by (simp add: age_alerts_young)
  qed
  then show ?thesis
    unfolding count_list_0_iff .
qed

lemma count_genetic_alerts:
  assumes "map_of GENETIC_ALERTS marker = Some rules" and "map_of rules med = Some info"
  shows "count_list (concat (map (genetic_alerts_for meds) gi)) (genetic_alert marker med info) =
           count_list gi marker * count_list meds med"
  unfolding genetic_alerts_for_pairs
  by (rule count_pairs [where h = genetic_pair]) (rule count_genetic_pair [OF assms])

lemma count_allergy_alerts:
  assumes "map_of ALLERGY_ALERTS allergy = Some info" and "med \<in> set (a_medications info)"
  shows "count_list (concat (map (allergy_alerts_for meds) als)) (allergy_alert allergy med info) =
           count_list als allergy * count_list meds med"
  unfolding allergy_alerts_for_pairs
  by (rule count_pairs [where h = allergy_pair]) (rule count_allergy_pair_direct [OF assms])

lemma count_cross_reactivity_alerts:
  assumes "map_of ALLERGY_ALERTS allergy = Some info" and "med \<in> set (a_cross_reactivity info)"
  shows "count_list (concat (map (allergy_alerts_for meds) als))
           (cross_reactivity_alert allergy med) = count_list als allergy * count_list meds med"
  unfolding allergy_alerts_for_pairs
  by (rule count_pairs [where h = allergy_pair]) (rule count_allergy_pair_cross [OF assms])

lemma count_comorbidity_alerts:
  assumes "map_of COMORBIDITY_ALERTS comorb = Some info" and "med \<in> set (c_medications info)"
  shows "count_list (concat (map (comorbidity_alerts_for meds) comorbs))
           (comorbidity_alert comorb med info) = count_list comorbs comorb * count_list meds med"
  unfolding comorbidity_alerts_for_pairs
  by (rule count_pairs [where h = comorbidity_pair]) (rule count_comorbidity_pair [OF assms])

text \<open>
  Claim C10. The patient's fields are read as lists. For every entry of the tables, the
  number of times its alert occurs in a checker's result is the product of the numbers
  of occurrences of the two names in the patient's lists: markers times medications for
  a genetic alert, allergies times medications for an allergy alert and for a
  cross-reactivity alert, comorbidities times medications for a comorbidity alert, and
  the number of occurrences of the medication for an age alert (when the age is at
  least 65). An interaction alert occurs at most once for each stored pair, however
  often the two drugs are repeated, since the medications are first made a set.
\<close>

theorem alerts_once_per_occurrence:
  "(\<forall>marker rules med info.
      map_of GENETIC_ALERTS marker = Some rules \<longrightarrow> map_of rules med = Some info \<longrightarrow>
      (\<exists>alerts. check_genetic_alerts (strs genetic_info) (strs medications) = Inr alerts \<and>
         count_list alerts (genetic_alert marker med info) =
           count_list genetic_info marker * count_list medications med)) \<and>
   (\<forall>allergy info med.
      map_of ALLERGY_ALERTS allergy = Some info \<longrightarrow>
      (\<exists>alerts. check_allergy_alerts (strs allergies) (strs medications) = Inr alerts \<and>
         (med \<in> set (a_medications info) \<longrightarrow>
            count_list alerts (allergy_alert allergy med info) =
              count_list allergies allergy * count_list medications med) \<and>
         (med \<in> set (a_cross_reactivity info) \<longrightarrow>
            count_list alerts (cross_reactivity_alert allergy med) =
              count_list allergies allergy * count_list medications med))) \<and>
   (\<forall>comorb info med.
      map_of COMORBIDITY_ALERTS comorb = Some info \<longrightarrow> med \<in> set (c_medications info) \<longrightarrow>
      (\<exists>alerts. check_comorbidity_alerts (strs comorbidities) (strs medications) (PInt age) =
           Inr alerts \<and>
         count_list alerts (comorbidity_alert comorb med info) =
           count_list comorbidities comorb * count_list medications med)) \<and>
   (\<forall>info med.
      map_of COMORBIDITY_ALERTS ''elderly'' = Some info \<longrightarrow> med \<in> set (c_medications info) \<longrightarrow>
      65 \<le> age \<longrightarrow>
      (\<exists>alerts. check_comorbidity_alerts (strs comorbidities) (strs medications) (PInt age) =
           Inr alerts \<and>
         count_list alerts (age_alert med info) = count_list medications med)) \<and>
   (\<forall>drugA drugB info.
      ((drugA, drugB), info) \<in> set DRUG_INTERACTIONS \<longrightarrow>
      (\<exists>alerts. check_drug_interactions (strs medications) = Inr alerts \<and>
         count_list alerts (interaction_alert drugA drugB info) \<le> 1))"
proof (intro conjI allI impI)
  fix marker rules med info
  assume a: "map_of GENETIC_ALERTS marker = Some rules" "map_of rules med = Some info"
  show "\<exists>alerts. check_genetic_alerts (strs genetic_info) (strs medications) = Inr alerts \<and>
         count_list alerts (genetic_alert marker med info) =
           count_list genetic_info marker * count_list medications med"
    unfolding check_genetic_alerts_strs
    using count_genetic_alerts [OF a, of medications genetic_info] by blast
next
  fix allergy info med
  assume a: "map_of ALLERGY_ALERTS allergy = Some info"
  have 1: "count_list (concat (map (allergy_alerts_for medications) allergies))
             (allergy_alert allergy med info) =
           count_list allergies allergy * count_list medications med"
    if "med \<in> set (a_medications info)"
    using a that by (rule count_allergy_alerts)
  have 2: "count_list (concat (map (allergy_alerts_for medications) allergies))
             (cross_reactivity_alert allergy med) =
           count_list allergies allergy * count_list medications med"
    if "med \<in> set (a_cross_reactivity info)"
    using a that by (rule count_cross_reactivity_alerts)
  from 1 2
  show "\<exists>alerts. check_allergy_alerts (strs allergies) (strs medications) = Inr alerts \<and>
         (med \<in> set (a_medications info) \<longrightarrow>
            count_list alerts (allergy_alert allergy med info) =
              count_list allergies allergy * count_list medications med) \<and>
         (med \<in> set (a_cross_reactivity info) \<longrightarrow>
            count_list alerts (cross_reactivity_alert allergy med) =
              count_list allergies allergy * count_list medications med)"
    unfolding check_allergy_alerts_strs by blast
next
  fix comorb info med
  assume a: "map_of COMORBIDITY_ALERTS comorb = Some info" "med \<in> set (c_medications info)"
  have "count_list (concat (map (comorbidity_alerts_for medications) comorbidities) @
            age_alerts_for medications age) (comorbidity_alert comorb med info) =
          count_list comorbidities comorb * count_list medications med"
    unfolding count_list_append count_comorbidity_alerts [OF a]
      count_comorbidity_alert_in_age_alerts [OF a]
    by simp
  then show "\<exists>alerts. check_comorbidity_alerts (strs comorbidities) (strs medications) (PInt age) =
           Inr alerts \<and>
         count_list alerts (comorbidity_alert comorb med info) =
           count_list comorbidities comorb * count_list medications med"
    unfolding check_comorbidity_alerts_strs by blast
next
  fix info med
  assume a: "map_of COMORBIDITY_ALERTS ''elderly'' = Some info" "med \<in> set (c_medications info)"
    "65 \<le> age"
  from a(1) have info: "info = ELDERLY_RULE"
    by (simp add: comorbidity_lookup)
  have "count_list (concat (map (comorbidity_alerts_for medications) comorbidities) @
            age_alerts_for medications age) (age_alert med ELDERLY_RULE) =
          count_list medications med"
    unfolding count_list_append count_age_alert_in_comorbidity_alerts
      count_age_alert [OF a(2) [unfolded info] a(3)]
    by simp
  then show "\<exists>alerts. check_comorbidity_alerts (strs comorbidities) (strs medications) (PInt age) =
           Inr alerts \<and>
         count_list alerts (age_alert med info) = count_list medications med"
    unfolding check_comorbidity_alerts_strs info by blast
next
  fix drugA drugB info
  assume a: "((drugA, drugB), info) \<in> set DRUG_INTERACTIONS"
  show "\<exists>alerts. check_drug_interactions (strs medications) = Inr alerts \<and>
         count_list alerts (interaction_alert drugA drugB info) \<le> 1"
    unfolding check_drug_interactions_strs
    using count_interaction_alert [OF a, of "set medications"] by simp
qed

theorem alerts_once_per_occurrence_witness:
  "map_of GENETIC_ALERTS ''CYP2C19 Poor Metabolizer'' = Some [(''clopidogrel'', CYP2C19_RULE)] \<and>
   map_of [(''clopidogrel'', CYP2C19_RULE)] ''clopidogrel'' = Some CYP2C19_RULE \<and>
   map_of ALLERGY_ALERTS ''penicillin'' = Some PENICILLIN_RULE \<and>
   ''amoxicillin'' \<in> set (a_medications PENICILLIN_RULE) \<and>
   ''cephalosporins'' \<in> set (a_cross_reactivity PENICILLIN_RULE) \<and>
   map_of COMORBIDITY_ALERTS ''elderly'' = Some ELDERLY_RULE \<and>
   ''benzodiazepines'' \<in> set (c_medications ELDERLY_RULE) \<and>
   (65::int) \<le> 70 \<and>
   ((''warfarin'', ''amiodarone''), snd (DRUG_INTERACTIONS ! 0)) \<in> set DRUG_INTERACTIONS \<and>
   (\<exists>alerts.
      check_genetic_alerts
        (strs [''CYP2C19 Poor Metabolizer'', ''CYP2C19 Poor Metabolizer''])
        (strs [''clopidogrel'', ''clopidogrel'', ''amoxicillin'', ''cephalosporins'',
               ''warfarin'', ''warfarin'', ''amiodarone'', ''benzodiazepines'',
               ''benzodiazepines'']) = Inr alerts \<and>
      count_list alerts
        (genetic_alert ''CYP2C19 Poor Metabolizer'' ''clopidogrel'' CYP2C19_RULE) = 4) \<and>
   (\<exists>alerts.
      check_allergy_alerts (strs [''penicillin'', ''penicillin''])
        (strs [''clopidogrel'', ''clopidogrel'', ''amoxicillin'', ''cephalosporins'',
               ''warfarin'', ''warfarin'', ''amiodarone'', ''benzodiazepines'',
               ''benzodiazepines'']) = Inr alerts \<and>
      count_list alerts (allergy_alert ''penicillin'' ''amoxicillin'' PENICILLIN_RULE) = 2 \<and>
      count_list alerts (cross_reactivity_alert ''penicillin'' ''cephalosporins'') = 2) \<and>
   (\<exists>alerts.
      check_comorbidity_alerts (strs [''elderly'', ''elderly''])
        (strs [''clopidogrel'', ''clopidogrel'', ''amoxicillin'', ''cephalosporins'',
               ''warfarin'', ''warfarin'', ''amiodarone'', ''benzodiazepines'',
               ''benzodiazepines'']) (PInt 70) = Inr alerts \<and>
      count_list alerts (comorbidity_alert ''elderly'' ''benzodiazepines'' ELDERLY_RULE) = 4) \<and>
   (\<exists>alerts.
      check_comorbidity_alerts (strs [''elderly'', ''elderly''])
        (strs [''clopidogrel'', ''clopidogrel'', ''amoxicillin'', ''cephalosporins'',
               ''warfarin'', ''warfarin'', ''amiodarone'', ''benzodiazepines'',
               ''benzodiazepines'']) (PInt 70) = Inr alerts \<and>
      count_list alerts (age_alert ''benzodiazepines'' ELDERLY_RULE) = 2) \<and>
   (\<exists>alerts.
      check_drug_interactions
        (strs [''clopidogrel'', ''clopidogrel'', ''amoxicillin'', ''cephalosporins'',
               ''warfarin'', ''warfarin'', ''amiodarone'', ''benzodiazepines'',
               ''benzodiazepines'']) = Inr alerts \<and>
      count_list alerts
        (interaction_alert ''warfarin'' ''amiodarone'' (snd (DRUG_INTERACTIONS ! 0))) \<le> 1)"
proof -
  let ?gi = "[''CYP2C19 Poor Metabolizer'', ''CYP2C19 Poor Metabolizer'']"
  let ?meds = "[''clopidogrel'', ''clopidogrel'', ''amoxicillin'', ''cephalosporins'',
               ''warfarin'', ''warfarin'', ''amiodarone'', ''benzodiazepines'',
               ''benzodiazepines'']"
  let ?als = "[''penicillin'', ''penicillin'']"
  let ?coms = "[''elderly'', ''elderly'']"
  note all = alerts_once_per_occurrence [of ?gi ?meds ?als ?coms 70]
  have g1: "map_of GENETIC_ALERTS ''CYP2C19 Poor Metabolizer'' =
              Some [(''clopidogrel'', CYP2C19_RULE)]"
    by (simp add: GENETIC_ALERTS_def)
  have g2: "map_of [(''clopidogrel'', CYP2C19_RULE)] ''clopidogrel'' = Some CYP2C19_RULE"
    by simp
  have a1: "map_of ALLERGY_ALERTS ''penicillin'' = Some PENICILLIN_RULE"
    by (simp add: ALLERGY_ALERTS_def)
  have a2: "''amoxicillin'' \<in> set (a_medications PENICILLIN_RULE)"
    by simp
  have a3: "''cephalosporins'' \<in> set (a_cross_reactivity PENICILLIN_RULE)"
    by simp
  have c1: "map_of COMORBIDITY_ALERTS ''elderly'' = Some ELDERLY_RULE"
    by (simp add: COMORBIDITY_ALERTS_def)
  have c2: "''benzodiazepines'' \<in> set (c_medications ELDERLY_RULE)"
    by simp
  have c3: "(65::int) \<le> 70"
    by simp
  have i1: "((''warfarin'', ''amiodarone''), snd (DRUG_INTERACTIONS ! 0)) \<in> set DRUG_INTERACTIONS"
    by (simp add: DRUG_INTERACTIONS_def)
  have genetic: "\<exists>alerts. check_genetic_alerts (strs ?gi) (strs ?meds) = Inr alerts \<and>
      count_list alerts
        (genetic_alert ''CYP2C19 Poor Metabolizer'' ''clopidogrel'' CYP2C19_RULE) = 4"
    using all [THEN conjunct1, rule_format, OF g1 g2]
    by (simp add: eval_nat_numeral)
  have allergy: "\<exists>alerts. check_allergy_alerts (strs ?als) (strs ?meds) = Inr alerts \<and>
      count_list alerts (allergy_alert ''penicillin'' ''amoxicillin'' PENICILLIN_RULE) = 2 \<and>
      count_list alerts (cross_reactivity_alert ''penicillin'' ''cephalosporins'') = 2"
  proof -
    from all [THEN conjunct2, THEN conjunct1, rule_format, OF a1, of "''amoxicillin''"]
    obtain alerts where r: "check_allergy_alerts (strs ?als) (strs ?meds) = Inr alerts"
      and d: "count_list alerts (allergy_alert ''penicillin'' ''amoxicillin'' PENICILLIN_RULE) =
                count_list ?als ''penicillin'' * count_list ?meds ''amoxicillin''"
      using a2 by blast
    from all [THEN conjunct2, THEN conjunct1, rule_format, OF a1, of "''cephalosporins''"]
    obtain alerts' where r': "check_allergy_alerts (strs ?als) (strs ?meds) = Inr alerts'"
      and x: "count_list alerts' (cross_reactivity_alert ''penicillin'' ''cephalosporins'') =
                count_list ?als ''penicillin'' * count_list ?meds ''cephalosporins''"
      using a3 by blast
    from r r' have "alerts' = alerts"
      by simp
    with r d x show ?thesis
      by (simp add: eval_nat_numeral)
  qed
  have comorbidity: "\<exists>alerts.
      check_comorbidity_alerts (strs ?coms) (strs ?meds) (PInt 70) = Inr alerts \<and>
      count_list alerts (comorbidity_alert ''elderly'' ''benzodiazepines'' ELDERLY_RULE) = 4"
    using all [THEN conjunct2, THEN conjunct2, THEN conjunct1, rule_format, OF c1 c2]
    by (simp add: eval_nat_numeral)
  have age: "\<exists>alerts.
      check_comorbidity_alerts (strs ?coms) (strs ?meds) (PInt 70) = Inr alerts \<and>
      count_list alerts (age_alert ''benzodiazepines'' ELDERLY_RULE) = 2"
    using all [THEN conjunct2, THEN conjunct2, THEN conjunct2, THEN conjunct1, rule_format,
        OF c1 c2 c3]
    by (simp add: eval_nat_numeral)
  have interaction: "\<exists>alerts. check_drug_interactions (strs ?meds) = Inr alerts \<and>
      count_list alerts
        (interaction_alert ''warfarin'' ''amiodarone'' (snd (DRUG_INTERACTIONS ! 0))) \<le> 1"
    using all [THEN conjunct2, THEN conjunct2, THEN conjunct2, THEN conjunct2, rule_format,
        OF i1] .
  from g1 g2 a1 a2 a3 c1 c2 c3 i1 genetic allergy comorbidity age interaction
  show ?thesis
    by (intro conjI)
qed

section \<open>The checkers on arbitrary values\<close>

text \<open>
  Whatever values the checkers are given, every alert they return is the alert of an
  entry of their table.
\<close>

lemma for_each_extends:
  assumes "for_each xs body s = Inr s'"
    and "\<And>x t t'. x \<in> set xs \<Longrightarrow> body x t = Inr t' \<Longrightarrow> \<exists>new. t' = t @ new \<and> (\<forall>a\<in>set new. Q a)"
  shows "\<exists>new. s' = s @ new \<and> (\<forall>a\<in>set new. Q a)"
  using assms
proof (induction xs arbitrary: s)
  case Nil
  then show ?case by simp
next
  case (Cons x xs)
  from Cons.prems(1) obtain t where t: "body x s = Inr t" and rest: "for_each xs body t = Inr s'"
    by (auto split: sum.splits)
  from Cons.prems(2) [of x s t] t obtain new1 where 1: "t = s @ new1" "\<forall>a\<in>set new1. Q a"
    by auto
  from Cons.IH [OF rest] Cons.prems(2) obtain new2 where 2: "s' = t @ new2" "\<forall>a\<in>set new2. Q a"
    by (metis list.set_intros(2))
  from 1 2 have "s' = s @ (new1 @ new2)" "\<forall>a\<in>set (new1 @ new2). Q a"
    by auto
  then show ?case by blast
qed

lemma dict_find_Some:
  "dict_find d v = Inr (Some (k, r)) \<Longrightarrow> v = PStr k \<and> map_of d k = Some r"
  by (cases v) (auto split: option.splits)

lemma list_find_Some: "list_find l v = Some m \<Longrightarrow> v = PStr m \<and> m \<in> set l"
  by (cases v) (auto split: if_splits)

lemma check_genetic_alerts_sound:
  assumes "check_genetic_alerts gi meds = Inr alerts" and "a \<in> set alerts"
  shows "\<exists>marker rules med info.
           map_of GENETIC_ALERTS marker = Some rules \<and> map_of rules med = Some info \<and>
           a = genetic_alert marker med info"
proof -
  define Q where "Q a \<longleftrightarrow> (\<exists>marker rules med info.
           map_of GENETIC_ALERTS marker = Some rules \<and> map_of rules med = Some info \<and>
           a = genetic_alert marker med info)" for a
  define inner where "inner marker rules = (\<lambda>med alerts.
      bind (dict_find rules med) (\<lambda>found.
        case found of None \<Rightarrow> Inr alerts
        | Some (med, info) \<Rightarrow> Inr (alerts @ [genetic_alert marker med info])))"
    for marker :: string and rules :: "(string \<times> genetic_rule) list"
  define outer where "outer = (\<lambda>marker alerts.
      bind (dict_find GENETIC_ALERTS marker) (\<lambda>found.
        case found of None \<Rightarrow> Inr alerts
        | Some (marker, rules) \<Rightarrow>
            bind (py_iter meds) (\<lambda>ms. for_each ms (inner marker rules) alerts)))"
  have inner: "\<exists>new. t' = t @ new \<and> (\<forall>a\<in>set new. Q a)"
    if "inner marker rules x t = Inr t'" and "map_of GENETIC_ALERTS marker = Some rules"
    for marker rules x t t'
  proof (cases "dict_find rules x")
    case (Inl e)
    with that(1) show ?thesis
      by (simp add: inner_def)
  next
    case (Inr found)
    show ?thesis
    proof (cases found)
      case None
      with that(1) Inr show ?thesis
        by (simp add: inner_def)
    next
      case (Some p)
      obtain med info where p: "p = (med, info)"
        by (cases p)
      from Inr Some p have "dict_find rules x = Inr (Some (med, info))"
        by simp
      then have "map_of rules med = Some info"
        by (rule dict_find_Some [THEN conjunct2])
      with that(2) have "Q (genetic_alert marker med info)"
        unfolding Q_def by (intro exI conjI) (assumption, assumption, rule refl)
      then have q: "\<forall>a\<in>set [genetic_alert marker med info]. Q a"
        by simp
      from that(1) Inr Some p have "t' = t @ [genetic_alert marker med info]"
        by (auto simp add: inner_def)
      with q show ?thesis
        by (intro exI [of _ "[genetic_alert marker med info]"] conjI)
    qed
  qed
  have outer: "\<exists>new. t' = t @ new \<and> (\<forall>a\<in>set new. Q a)" if "outer x t = Inr t'" for x t t'
  proof (cases "dict_find GENETIC_ALERTS x")
    case (Inl e)
    with that show ?thesis
      by (simp add: outer_def)
  next
    case (Inr found)
    show ?thesis
    proof (cases found)
      case None
      with that Inr show ?thesis
        by (simp add: outer_def)
    next
      case (Some p)
      obtain marker rules where p: "p = (marker, rules)"
        by (cases p)
      from Inr Some p have "dict_find GENETIC_ALERTS x = Inr (Some (marker, rules))"
        by simp
      then have m: "map_of GENETIC_ALERTS marker = Some rules"
        by (rule dict_find_Some [THEN conjunct2])
      show ?thesis
      proof (cases "py_iter meds")
        case (Inl e)
        with that Inr Some p show ?thesis
          by (simp add: outer_def)
      next
        case ms: (Inr ms)
        with that Inr Some p have "for_each ms (inner marker rules) t = Inr t'"
          by (simp add: outer_def)
        then show ?thesis
          by (rule for_each_extends [where Q = Q]) (rule inner [OF _ m])
      qed
    qed
  qed
  have "\<exists>new. alerts = [] @ new \<and> (\<forall>a\<in>set new. Q a)"
  proof (cases "py_iter gi")
    case (Inl e)
    with assms(1) show ?thesis
      by (simp add: check_genetic_alerts_def)
  next
    case (Inr markers)
    with assms(1) have "for_each markers outer [] = Inr alerts"
      unfolding check_genetic_alerts_def outer_def inner_def by simp
    then show ?thesis
      by (rule for_each_extends [where Q = Q]) (rule outer)
  qed
  with assms(2) have "Q a"
    by simp
  then show ?thesis
    unfolding Q_def .
qed


lemma allergy_med_step_extends:
  "\<exists>new. allergy_med_step allergy info v t = t @ new \<and>
     (\<forall>a\<in>set new. \<exists>med.
        (med \<in> set (a_medications info) \<and> a = allergy_alert allergy med info) \<or>
        (med \<in> set (a_cross_reactivity info) \<and> a = cross_reactivity_alert allergy med))"
proof (cases v)
  case (PStr m)
  have "allergy_med_step allergy info (PStr m) t = t @ allergy_alerts_of_med allergy info m"
    by (rule allergy_med_step_PStr)
  moreover have "\<forall>a\<in>set (allergy_alerts_of_med allergy info m). \<exists>med.
        (med \<in> set (a_medications info) \<and> a = allergy_alert allergy med info) \<or>
        (med \<in> set (a_cross_reactivity info) \<and> a = cross_reactivity_alert allergy med)"
    unfolding allergy_alerts_of_med_def by (auto split: if_splits)
  ultimately show ?thesis
    unfolding PStr by blast
next
  case PNone
  then show ?thesis
    by (simp add: allergy_med_step_def)
next
  case (PInt i)
  then show ?thesis
    by (simp add: allergy_med_step_def)
next
  case (PList xs)
  then show ?thesis
    by (simp add: allergy_med_step_def)
qed

lemma check_allergy_alerts_sound:
  assumes "check_allergy_alerts als meds = Inr alerts" and "a \<in> set alerts"
  shows "\<exists>allergy info med.
           map_of ALLERGY_ALERTS allergy = Some info \<and>
           ((med \<in> set (a_medications info) \<and> a = allergy_alert allergy med info) \<or>
            (med \<in> set (a_cross_reactivity info) \<and> a = cross_reactivity_alert allergy med))"
proof -
  define Q where "Q a \<longleftrightarrow> (\<exists>allergy info med.
           map_of ALLERGY_ALERTS allergy = Some info \<and>
           ((med \<in> set (a_medications info) \<and> a = allergy_alert allergy med info) \<or>
            (med \<in> set (a_cross_reactivity info) \<and> a = cross_reactivity_alert allergy med)))"
    for a
  define inner where "inner allergy info = (\<lambda>med alerts.
      (Inr (allergy_med_step allergy info med alerts) :: error + string list))"
    for allergy :: string and info :: allergy_rule
  define outer where "outer = (\<lambda>allergy alerts.
      bind (dict_find ALLERGY_ALERTS allergy) (\<lambda>found.
        case found of None \<Rightarrow> Inr alerts
        | Some (allergy, allergy_info) \<Rightarrow>
            bind (py_iter meds) (\<lambda>ms. for_each ms (inner allergy allergy_info) alerts)))"
  have inner: "\<exists>new. t' = t @ new \<and> (\<forall>a\<in>set new. Q a)"
    if "inner allergy info x t = Inr t'" and m: "map_of ALLERGY_ALERTS allergy = Some info"
    for allergy info x t t'
  proof -
    from allergy_med_step_extends [of allergy info x t]
    obtain new where new: "allergy_med_step allergy info x t = t @ new"
      and q: "\<forall>a\<in>set new. \<exists>med.
        (med \<in> set (a_medications info) \<and> a = allergy_alert allergy med info) \<or>
        (med \<in> set (a_cross_reactivity info) \<and> a = cross_reactivity_alert allergy med)"
      by (elim exE conjE)
    from q m have "\<forall>a\<in>set new. Q a"
      unfolding Q_def by blast
    moreover from that(1) new have "t' = t @ new"
      by (simp add: inner_def)
    ultimately show ?thesis
      by (intro exI [of _ new] conjI)
  qed
  have outer: "\<exists>new. t' = t @ new \<and> (\<forall>a\<in>set new. Q a)" if "outer x t = Inr t'" for x t t'
  proof (cases "dict_find ALLERGY_ALERTS x")
    case (Inl e)
    with that show ?thesis
      by (simp add: outer_def)
  next
    case (Inr found)
    show ?thesis
    proof (cases found)
      case None
      with that Inr show ?thesis
        by (simp add: outer_def)
    next
      case (Some p)
      obtain allergy info where p: "p = (allergy, info)"
        by (cases p)
      from Inr Some p have "dict_find ALLERGY_ALERTS x = Inr (Some (allergy, info))"
        by simp
      then have m: "map_of ALLERGY_ALERTS allergy = Some info"
        by (rule dict_find_Some [THEN conjunct2])
      show ?thesis
      proof (cases "py_iter meds")
        case (Inl e)
        with that Inr Some p show ?thesis
          by (simp add: outer_def)
      next
        case ms: (Inr ms)
        with that Inr Some p have "for_each ms (inner allergy info) t = Inr t'"
          by (simp add: outer_def)
        then show ?thesis
          by (rule for_each_extends [where Q = Q]) (rule inner [OF _ m])
      qed
    qed
  qed
  have "\<exists>new. alerts = [] @ new \<and> (\<forall>a\<in>set new. Q a)"
  proof (cases "py_iter als")
    case (Inl e)
    with assms(1) show ?thesis
      by (simp add: check_allergy_alerts_def)
  next
    case (Inr allergies)
    with assms(1) have "for_each allergies outer [] = Inr alerts"
      unfolding check_allergy_alerts_def outer_def inner_def by simp
    then show ?thesis
      by (rule for_each_extends [where Q = Q]) (rule outer)
  qed
  with assms(2) have "Q a"
    by simp
  then show ?thesis
    unfolding Q_def .
qed

lemma check_drug_interactions_sound:
  assumes "check_drug_interactions meds = Inr alerts" and "a \<in> set alerts"
  shows "\<exists>drug1 drug2 info.
           ((drug1, drug2), info) \<in> set DRUG_INTERACTIONS \<and> a = interaction_alert drug1 drug2 info"
proof -
  define Q where "Q a \<longleftrightarrow> (\<exists>drug1 drug2 info.
           ((drug1, drug2), info) \<in> set DRUG_INTERACTIONS \<and> a = interaction_alert drug1 drug2 info)"
    for a
  define body where "body M = (\<lambda>((drug1, drug2), info) alerts.
         if PStr drug1 \<in> M \<and> PStr drug2 \<in> M
         then Inr (alerts @ [interaction_alert drug1 drug2 info])
         else (Inr alerts :: error + string list))" for M :: "pyval set"
  have body: "\<exists>new. t' = t @ new \<and> (\<forall>a\<in>set new. Q a)"
    if "x \<in> set DRUG_INTERACTIONS" and "body M x t = Inr t'" for M x t t'
  proof -
    obtain drug1 drug2 info where x: "x = ((drug1, drug2), info)"
      by (cases x) auto
    from that(1) have "Q (interaction_alert drug1 drug2 info)"
      unfolding Q_def x by (intro exI conjI) (assumption, rule refl)
    then have q: "\<forall>a\<in>set [interaction_alert drug1 drug2 info]. Q a"
      by simp
    from that(2) have "t' = t @ [interaction_alert drug1 drug2 info] \<or> t' = t"
      unfolding body_def x by (auto split: if_splits)
    then show ?thesis
    proof
      assume "t' = t @ [interaction_alert drug1 drug2 info]"
      with q show ?thesis
        by (intro exI [of _ "[interaction_alert drug1 drug2 info]"] conjI)
    next
      assume "t' = t"
      then show ?thesis
        by (intro exI [of _ "[]"]) simp
    qed
  qed
  have "\<exists>new. alerts = [] @ new \<and> (\<forall>a\<in>set new. Q a)"
  proof (cases "py_set meds")
    case (Inl e)
    with assms(1) show ?thesis
      by (simp add: check_drug_interactions_def)
  next
    case (Inr M)
    with assms(1) have "for_each DRUG_INTERACTIONS (body M) [] = Inr alerts"
      unfolding check_drug_interactions_def body_def by simp
    then show ?thesis
      by (rule for_each_extends [where Q = Q]) (rule body)
  qed
  with assms(2) have "Q a"
    by simp
  then show ?thesis
    unfolding Q_def .
qed


lemma check_comorbidity_alerts_sound:
  assumes "check_comorbidity_alerts comorbs meds age = Inr alerts" and "a \<in> set alerts"
  shows "(\<exists>comorb info med.
            map_of COMORBIDITY_ALERTS comorb = Some info \<and> med \<in> set (c_medications info) \<and>
            a = comorbidity_alert comorb med info) \<or>
         (\<exists>info med.
            map_of COMORBIDITY_ALERTS ''elderly'' = Some info \<and> med \<in> set (c_medications info) \<and>
            a = age_alert med info)"
proof -
  define Q where "Q a \<longleftrightarrow>
         (\<exists>comorb info med.
            map_of COMORBIDITY_ALERTS comorb = Some info \<and> med \<in> set (c_medications info) \<and>
            a = comorbidity_alert comorb med info) \<or>
         (\<exists>info med.
            map_of COMORBIDITY_ALERTS ''elderly'' = Some info \<and> med \<in> set (c_medications info) \<and>
            a = age_alert med info)" for a
  define inner where "inner comorb info = (\<lambda>med alerts.
      case list_find (c_medications info) med of
        None \<Rightarrow> Inr alerts
      | Some med \<Rightarrow> (Inr (alerts @ [comorbidity_alert comorb med info]) :: error + string list))"
    for comorb :: string and info :: comorbidity_rule
  define outer where "outer = (\<lambda>comorb alerts.
      bind (dict_find COMORBIDITY_ALERTS comorb) (\<lambda>found.
        case found of None \<Rightarrow> Inr alerts
        | Some (comorb, info) \<Rightarrow>
            bind (py_iter meds) (\<lambda>ms. for_each ms (inner comorb info) alerts)))"
  define agebody where "agebody elderly_info = (\<lambda>med alerts.
      case list_find (c_medications elderly_info) med of
        None \<Rightarrow> Inr alerts
      | Some med \<Rightarrow> (Inr (alerts @ [age_alert med elderly_info]) :: error + string list))"
    for elderly_info :: comorbidity_rule
  define phase2 where "phase2 = (\<lambda>alerts.
      bind (py_ge age 65) (\<lambda>old.
       if old then
         (case map_of COMORBIDITY_ALERTS ''elderly'' of
            None \<Rightarrow> Inr alerts
          | Some elderly_info \<Rightarrow>
              bind (py_iter meds) (\<lambda>ms. for_each ms (agebody elderly_info) alerts))
       else Inr alerts))"
  have inner: "\<exists>new. t' = t @ new \<and> (\<forall>a\<in>set new. Q a)"
    if "inner comorb info x t = Inr t'" and m: "map_of COMORBIDITY_ALERTS comorb = Some info"
    for comorb info x t t'
  proof (cases "list_find (c_medications info) x")
    case None
    with that(1) show ?thesis
      by (simp add: inner_def)
  next
    case (Some med)
    then have "med \<in> set (c_medications info)"
      by (rule list_find_Some [THEN conjunct2])
    with m have "Q (comorbidity_alert comorb med info)"
      unfolding Q_def by (intro disjI1 exI conjI) (assumption, assumption, rule refl)
    then have q: "\<forall>a\<in>set [comorbidity_alert comorb med info]. Q a"
      by simp
    from that(1) Some have "t' = t @ [comorbidity_alert comorb med info]"
      by (auto simp add: inner_def)
    with q show ?thesis
      by (intro exI [of _ "[comorbidity_alert comorb med info]"] conjI)
  qed
  have agebody: "\<exists>new. t' = t @ new \<and> (\<forall>a\<in>set new. Q a)"
    if "agebody info x t = Inr t'" and m: "map_of COMORBIDITY_ALERTS ''elderly'' = Some info"
    for info x t t'
  proof (cases "list_find (c_medications info) x")
    case None
    with that(1) show ?thesis
      by (simp add: agebody_def)
  next
    case (Some med)
    then have "med \<in> set (c_medications info)"
      by (rule list_find_Some [THEN conjunct2])
    with m have "Q (age_alert med info)"
      unfolding Q_def by (intro disjI2 exI conjI) (assumption, assumption, rule refl)
    then have q: "\<forall>a\<in>set [age_alert med info]. Q a"
      by simp
    from that(1) Some have "t' = t @ [age_alert med info]"
      by (auto simp add: agebody_def)
    with q show ?thesis
      by (intro exI [of _ "[age_alert med info]"] conjI)
  qed
  have outer: "\<exists>new. t' = t @ new \<and> (\<forall>a\<in>set new. Q a)" if "outer x t = Inr t'" for x t t'
  proof (cases "dict_find COMORBIDITY_ALERTS x")
    case (Inl e)
    with that show ?thesis
      by (simp add: outer_def)
  next
    case (Inr found)
    show ?thesis
    proof (cases found)
      case None
      with that Inr show ?thesis
        by (simp add: outer_def)
    next
      case (Some p)
      obtain comorb info where p: "p = (comorb, info)"
        by (cases p)
      from Inr Some p have "dict_find COMORBIDITY_ALERTS x = Inr (Some (comorb, info))"
        by simp
      then have m: "map_of COMORBIDITY_ALERTS comorb = Some info"
        by (rule dict_find_Some [THEN conjunct2])
      show ?thesis
      proof (cases "py_iter meds")
        case (Inl e)
        with that Inr Some p show ?thesis
          by (simp add: outer_def)
      next
        case ms: (Inr ms)
        with that Inr Some p have "for_each ms (inner comorb info) t = Inr t'"
          by (simp add: outer_def)
        then show ?thesis
          by (rule for_each_extends [where Q = Q]) (rule inner [OF _ m])
      qed
    qed
  qed
  have phase2: "\<forall>a\<in>set t'. Q a" if "phase2 t = Inr t'" and t: "\<forall>a\<in>set t. Q a" for t t'
  proof (cases "py_ge age 65")
    case (Inl e)
    with that(1) show ?thesis
      by (simp add: phase2_def)
  next
    case (Inr old)
    show ?thesis
    proof (cases "old \<and> map_of COMORBIDITY_ALERTS ''elderly'' \<noteq> None \<and>
        (\<exists>ms. py_iter meds = Inr ms)")
      case False
      with that(1) Inr have "t' = t \<or> False"
        by (cases "py_iter meds") (auto simp add: phase2_def split: option.splits if_splits)
      with t show ?thesis
        by simp
    next
      case True
      then obtain info where m: "map_of COMORBIDITY_ALERTS ''elderly'' = Some info"
        by auto
      from True obtain ms where ms: "py_iter meds = Inr ms"
        by blast
      from that(1) Inr True m ms have "for_each ms (agebody info) t = Inr t'"
        by (simp add: phase2_def)
      then have "\<exists>new. t' = t @ new \<and> (\<forall>a\<in>set new. Q a)"
        by (rule for_each_extends [where Q = Q]) (rule agebody [OF _ m])
      with t show ?thesis
        by auto
    qed
  qed
  have "\<forall>a\<in>set alerts. Q a"
  proof (cases "py_iter comorbs")
    case (Inl e)
    with assms(1) show ?thesis
      by (simp add: check_comorbidity_alerts_def)
  next
    case (Inr cs)
    with assms(1) have run: "bind (for_each cs outer []) phase2 = Inr alerts"
      unfolding check_comorbidity_alerts_def outer_def inner_def phase2_def agebody_def by simp
    show ?thesis
    proof (cases "for_each cs outer []")
      case (Inl e)
      with run show ?thesis
        by simp
    next
      case t: (Inr t)
      then have "\<exists>new. t = [] @ new \<and> (\<forall>a\<in>set new. Q a)"
        by (rule for_each_extends [where Q = Q]) (rule outer)
      then have "\<forall>a\<in>set t. Q a"
        by simp
      moreover from run t have "phase2 t = Inr alerts"
        by simp
      ultimately show ?thesis
        by (rule phase2 [rotated])
    qed
  qed
  with assms(2) have "Q a"
    by simp
  then show ?thesis
    unfolding Q_def .
qed

section \<open>The aggregator\<close>

lemma generate_contextual_alerts_Inr:
  assumes "generate_contextual_alerts patient = Inr alerts"
  shows "\<exists>g a i c.
     check_genetic_alerts (dict_get patient ''genetic_info'' (PList []))
       (dict_get patient ''medications'' (PList [])) = Inr g \<and>
     check_allergy_alerts (dict_get patient ''allergies'' (PList []))
       (dict_get patient ''medications'' (PList [])) = Inr a \<and>
     check_drug_interactions (dict_get patient ''medications'' (PList [])) = Inr i \<and>
     check_comorbidity_alerts (dict_get patient ''comorbidities'' (PList []))
       (dict_get patient ''medications'' (PList [])) (dict_get patient ''age'' (PInt 0)) = Inr c \<and>
     alerts = g @ a @ i @ c"
proof -
  let ?G = "check_genetic_alerts (dict_get patient ''genetic_info'' (PList []))
       (dict_get patient ''medications'' (PList []))"
  let ?A = "check_allergy_alerts (dict_get patient ''allergies'' (PList []))
       (dict_get patient ''medications'' (PList []))"
  let ?I = "check_drug_interactions (dict_get patient ''medications'' (PList []))"
  let ?C = "check_comorbidity_alerts (dict_get patient ''comorbidities'' (PList []))
       (dict_get patient ''medications'' (PList [])) (dict_get patient ''age'' (PInt 0))"
  from assms have run:
    "bind ?G (\<lambda>g. bind ?A (\<lambda>a. bind ?I (\<lambda>i. bind ?C (\<lambda>c. Inr (((g @ a) @ i) @ c))))) =
       Inr alerts"
    unfolding generate_contextual_alerts_def Let_def by simp
  obtain g where g: "?G = Inr g"
    using run by (cases ?G) simp_all
  obtain a where a: "?A = Inr a"
    using run unfolding g by (cases ?A) simp_all
  obtain i where i: "?I = Inr i"
    using run unfolding g a by (cases ?I) simp_all
  obtain c where c: "?C = Inr c"
    using run unfolding g a i by (cases ?C) simp_all
  from run have "alerts = g @ a @ i @ c"
    unfolding g a i c by simp
  with g a i c show ?thesis
    by (intro exI conjI)
qed

lemma generate_contextual_alerts_concat:
  assumes "check_genetic_alerts (dict_get patient ''genetic_info'' (PList []))
       (dict_get patient ''medications'' (PList [])) = Inr g"
    and "check_allergy_alerts (dict_get patient ''allergies'' (PList []))
       (dict_get patient ''medications'' (PList [])) = Inr a"
    and "check_drug_interactions (dict_get patient ''medications'' (PList [])) = Inr i"
    and "check_comorbidity_alerts (dict_get patient ''comorbidities'' (PList []))
       (dict_get patient ''medications'' (PList [])) (dict_get patient ''age'' (PInt 0)) = Inr c"
  shows "generate_contextual_alerts patient = Inr (g @ a @ i @ c)"
  unfolding generate_contextual_alerts_def Let_def assms by simp


lemma list_all_is_str: "list_all is_str xs \<Longrightarrow> \<exists>ss. xs = map PStr ss"
proof (induction xs)
  case Nil
  then show ?case by simp
next
  case (Cons x xs)
  then obtain ss where "xs = map PStr ss"
    by auto
  moreover from Cons.prems obtain s where "x = PStr s"
    by (cases x) auto
  ultimately have "x # xs = map PStr (s # ss)"
    by simp
  then show ?case
    by (rule exI)
qed

lemma is_str_list_strs: "is_str_list v \<Longrightarrow> \<exists>ss. v = strs ss"
  by (cases v) (auto simp add: strs_def dest: list_all_is_str)

lemma is_int_PInt: "is_int v \<Longrightarrow> \<exists>n. v = PInt n"
  by (cases v) auto

text \<open>
  Claim C8. \<open>generate_contextual_alerts\<close> reads each field of the record with the
  default \<open>[]\<close> (0 for the age) when it is absent and returns the results of the four
  checkers on these fields concatenated in the order genetic, allergy, interaction,
  comorbidity and age. For a well-typed record the four checkers do return, so the
  aggregate list exists and has this form.
\<close>

theorem generate_contextual_alerts_order:
  "(\<forall>genetic allergy interaction comorbidity.
      check_genetic_alerts (dict_get patient ''genetic_info'' (PList []))
        (dict_get patient ''medications'' (PList [])) = Inr genetic \<longrightarrow>
      check_allergy_alerts (dict_get patient ''allergies'' (PList []))
        (dict_get patient ''medications'' (PList [])) = Inr allergy \<longrightarrow>
      check_drug_interactions (dict_get patient ''medications'' (PList [])) = Inr interaction \<longrightarrow>
      check_comorbidity_alerts (dict_get patient ''comorbidities'' (PList []))
        (dict_get patient ''medications'' (PList []))
        (dict_get patient ''age'' (PInt 0)) = Inr comorbidity \<longrightarrow>
      generate_contextual_alerts patient =
        Inr (genetic @ allergy @ interaction @ comorbidity)) \<and>
   (well_typed patient \<longrightarrow>
      (\<exists>genetic allergy interaction comorbidity.
         check_genetic_alerts (dict_get patient ''genetic_info'' (PList []))
           (dict_get patient ''medications'' (PList [])) = Inr genetic \<and>
         check_allergy_alerts (dict_get patient ''allergies'' (PList []))
           (dict_get patient ''medications'' (PList [])) = Inr allergy \<and>
         check_drug_interactions (dict_get patient ''medications'' (PList [])) =
           Inr interaction \<and>
         check_comorbidity_alerts (dict_get patient ''comorbidities'' (PList []))
           (dict_get patient ''medications'' (PList []))
           (dict_get patient ''age'' (PInt 0)) = Inr comorbidity \<and>
         generate_contextual_alerts patient =
           Inr (genetic @ allergy @ interaction @ comorbidity)))"
proof (intro conjI allI impI)
  fix genetic allergy interaction comorbidity
  assume "check_genetic_alerts (dict_get patient ''genetic_info'' (PList []))
        (dict_get patient ''medications'' (PList [])) = Inr genetic"
    and "check_allergy_alerts (dict_get patient ''allergies'' (PList []))
        (dict_get patient ''medications'' (PList [])) = Inr allergy"
    and "check_drug_interactions (dict_get patient ''medications'' (PList [])) = Inr interaction"
    and "check_comorbidity_alerts (dict_get patient ''comorbidities'' (PList []))
        (dict_get patient ''medications'' (PList []))
        (dict_get patient ''age'' (PInt 0)) = Inr comorbidity"
  then show "generate_contextual_alerts patient =
        Inr (genetic @ allergy @ interaction @ comorbidity)"
    by (rule generate_contextual_alerts_concat)
next
  assume "well_typed patient"
  then obtain gs als ms cs n
    where f: "dict_get patient ''genetic_info'' (PList []) = strs gs"
      "dict_get patient ''allergies'' (PList []) = strs als"
      "dict_get patient ''medications'' (PList []) = strs ms"
      "dict_get patient ''comorbidities'' (PList []) = strs cs"
      "dict_get patient ''age'' (PInt 0) = PInt n"
    unfolding well_typed_def using is_str_list_strs is_int_PInt by metis
  let ?g = "concat (map (genetic_alerts_for ms) gs)"
  let ?a = "concat (map (allergy_alerts_for ms) als)"
  let ?i = "concat (map (interaction_alerts_for (set ms)) DRUG_INTERACTIONS)"
  let ?c = "concat (map (comorbidity_alerts_for ms) cs) @ age_alerts_for ms n"
  have g: "check_genetic_alerts (dict_get patient ''genetic_info'' (PList []))
           (dict_get patient ''medications'' (PList [])) = Inr ?g"
    unfolding f by (rule check_genetic_alerts_strs)
  have a: "check_allergy_alerts (dict_get patient ''allergies'' (PList []))
           (dict_get patient ''medications'' (PList [])) = Inr ?a"
    unfolding f by (rule check_allergy_alerts_strs)
  have i: "check_drug_interactions (dict_get patient ''medications'' (PList [])) = Inr ?i"
    unfolding f by (rule check_drug_interactions_strs)
  have c: "check_comorbidity_alerts (dict_get patient ''comorbidities'' (PList []))
           (dict_get patient ''medications'' (PList []))
           (dict_get patient ''age'' (PInt 0)) = Inr ?c"
    unfolding f by (rule check_comorbidity_alerts_strs)
  from g a i c generate_contextual_alerts_concat [OF g a i c]
  show "\<exists>genetic allergy interaction comorbidity.
         check_genetic_alerts (dict_get patient ''genetic_info'' (PList []))
           (dict_get patient ''medications'' (PList [])) = Inr genetic \<and>
         check_allergy_alerts (dict_get patient ''allergies'' (PList []))
           (dict_get patient ''medications'' (PList [])) = Inr allergy \<and>
         check_drug_interactions (dict_get patient ''medications'' (PList [])) =
           Inr interaction \<and>
         check_comorbidity_alerts (dict_get patient ''comorbidities'' (PList []))
           (dict_get patient ''medications'' (PList []))
           (dict_get patient ''age'' (PInt 0)) = Inr comorbidity \<and>
         generate_contextual_alerts patient =
           Inr (genetic @ allergy @ interaction @ comorbidity)"
    by (intro exI conjI)
qed

theorem generate_contextual_alerts_order_witness:
  "well_typed patient_data \<and>
   check_genetic_alerts (dict_get patient_data ''genetic_info'' (PList []))
     (dict_get patient_data ''medications'' (PList [])) =
     Inr [''[HIGH] Genetic alert: CYP2C19 Poor Metabolizer affects clopidogrel. Recommendation: Consider alternative antiplatelet therapy (e.g., prasugrel, ticagrelor).''] \<and>
   check_allergy_alerts (dict_get patient_data ''allergies'' (PList []))
     (dict_get patient_data ''medications'' (PList [])) =
     Inr [''[HIGH] Allergy alert: penicillin allergy - avoid amoxicillin.''] \<and>
   check_drug_interactions (dict_get patient_data ''medications'' (PList [])) =
     Inr [''[HIGH] Interaction alert: warfarin + amiodarone - Increased bleeding risk. Recommendation: Monitor INR closely and adjust warfarin dose as needed.''] \<and>
   check_comorbidity_alerts (dict_get patient_data ''comorbidities'' (PList []))
     (dict_get patient_data ''medications'' (PList [])) (dict_get patient_data ''age'' (PInt 0)) =
     Inr [''[MODERATE] Age alert: Elderly patient with benzodiazepines. Recommendation: Use with caution; increased risk of falls and confusion.''] \<and>
   generate_contextual_alerts patient_data =
     Inr ([''[HIGH] Genetic alert: CYP2C19 Poor Metabolizer affects clopidogrel. Recommendation: Consider alternative antiplatelet therapy (e.g., prasugrel, ticagrelor).''] @
          [''[HIGH] Allergy alert: penicillin allergy - avoid amoxicillin.''] @
          [''[HIGH] Interaction alert: warfarin + amiodarone - Increased bleeding risk. Recommendation: Monitor INR closely and adjust warfarin dose as needed.''] @
          [''[MODERATE] Age alert: Elderly patient with benzodiazepines. Recommendation: Use with caution; increased risk of falls and confusion.'']) \<and>
   well_typed Map.empty \<and>
   (\<exists>genetic allergy interaction comorbidity.
      check_genetic_alerts (PList []) (PList []) = Inr genetic \<and>
      check_allergy_alerts (PList []) (PList []) = Inr allergy \<and>
      check_drug_interactions (PList []) = Inr interaction \<and>
      check_comorbidity_alerts (PList []) (PList []) (PInt 0) = Inr comorbidity \<and>
      generate_contextual_alerts Map.empty =
        Inr (genetic @ allergy @ interaction @ comorbidity))"
proof -
  have wt: "well_typed patient_data"
    by (simp add: well_typed_def patient_data_def dict_get_def)
  have g: "check_genetic_alerts (dict_get patient_data ''genetic_info'' (PList []))
     (dict_get patient_data ''medications'' (PList [])) =
     Inr [''[HIGH] Genetic alert: CYP2C19 Poor Metabolizer affects clopidogrel. Recommendation: Consider alternative antiplatelet therapy (e.g., prasugrel, ticagrelor).'']"
    by (simp add: patient_data_def dict_get_def checker_defs kb_defs alert_defs)
  have a: "check_allergy_alerts (dict_get patient_data ''allergies'' (PList []))
     (dict_get patient_data ''medications'' (PList [])) =
     Inr [''[HIGH] Allergy alert: penicillin allergy - avoid amoxicillin.'']"
    by (simp add: patient_data_def dict_get_def checker_defs kb_defs alert_defs)
  have i: "check_drug_interactions (dict_get patient_data ''medications'' (PList [])) =
     Inr [''[HIGH] Interaction alert: warfarin + amiodarone - Increased bleeding risk. Recommendation: Monitor INR closely and adjust warfarin dose as needed.'']"
    by (simp add: patient_data_def dict_get_def checker_defs kb_defs alert_defs)
  have c: "check_comorbidity_alerts (dict_get patient_data ''comorbidities'' (PList []))
     (dict_get patient_data ''medications'' (PList [])) (dict_get patient_data ''age'' (PInt 0)) =
     Inr [''[MODERATE] Age alert: Elderly patient with benzodiazepines. Recommendation: Use with caution; increased risk of falls and confusion.'']"
    by (simp add: patient_data_def dict_get_def checker_defs kb_defs alert_defs)
  note all = generate_contextual_alerts_order [of patient_data, THEN conjunct1, rule_format,
      OF g a i c]
  have wt0: "well_typed Map.empty"
    by (simp add: well_typed_def dict_get_def)
  have empty: "\<exists>genetic allergy interaction comorbidity.
      check_genetic_alerts (PList []) (PList []) = Inr genetic \<and>
      check_allergy_alerts (PList []) (PList []) = Inr allergy \<and>
      check_drug_interactions (PList []) = Inr interaction \<and>
      check_comorbidity_alerts (PList []) (PList []) (PInt 0) = Inr comorbidity \<and>
      generate_contextual_alerts Map.empty =
        Inr (genetic @ allergy @ interaction @ comorbidity)"
    using generate_contextual_alerts_order [of Map.empty, THEN conjunct2, rule_format, OF wt0]
    by (simp add: dict_get_def)
  from wt g a i c all wt0 empty show ?thesis
    by (intro conjI)
qed

section \<open>The format of the alerts\<close>

lemma genetic_alert_form: "alert_with_recommendation (genetic_alert marker med info)"
  unfolding genetic_alert_def
  by (rule exI [of _ "upper (g_severity info)"], rule exI [of _ "''Genetic''"],
      rule exI [of _ "marker @ '' affects '' @ med"], rule exI [of _ "g_recommendation info"])
    simp

lemma interaction_alert_form: "alert_with_recommendation (interaction_alert drug1 drug2 info)"
  unfolding interaction_alert_def
  by (rule exI [of _ "upper (i_severity info)"], rule exI [of _ "''Interaction''"],
      rule exI [of _ "drug1 @ '' + '' @ drug2 @ '' - '' @ i_warning info"],
      rule exI [of _ "i_recommendation info"])
    simp

lemma comorbidity_alert_form: "alert_with_recommendation (comorbidity_alert comorb med info)"
  unfolding comorbidity_alert_def
  by (rule exI [of _ "upper (c_severity info)"], rule exI [of _ "''Comorbidity''"],
      rule exI [of _ "comorb @ '' with '' @ med"], rule exI [of _ "c_recommendation info"])
    simp

lemma age_alert_form: "alert_with_recommendation (age_alert med info)"
  unfolding age_alert_def
  by (rule exI [of _ "upper (c_severity info)"], rule exI [of _ "''Age''"],
      rule exI [of _ "''Elderly patient with '' @ med"], rule exI [of _ "c_recommendation info"])
    simp


lemma allergy_alert_form:
  assumes "map_of ALLERGY_ALERTS allergy = Some info" and "med \<in> set (a_medications info)"
  shows "alert_without_recommendation (allergy_alert allergy med info)"
proof -
  have shape: "allergy_alert allergy med info =
      ''['' @ upper (a_severity info) @ ''] '' @ ''Allergy'' @ '' alert: '' @
      (allergy @ '' allergy - avoid '' @ med) @ ''.''"
    by (simp add: allergy_alert_def)
  consider (p) "allergy = ''penicillin''" "info = PENICILLIN_RULE"
    | (s) "allergy = ''sulfa''" "info = SULFA_RULE"
    using assms(1) unfolding allergy_lookup by (simp split: if_splits)
  then have "\<not> sublist ''Recommendation'' (allergy_alert allergy med info)"
  proof cases
    case p
    from assms(2) have "med = ''amoxicillin'' \<or> med = ''ampicillin'' \<or> med = ''penicillin''"
      unfolding p by simp
    then show ?thesis
      unfolding p allergy_alert_penicillin
      by (elim disjE) (simp_all add: sublist_Cons_right)
  next
    case s
    from assms(2) have "med = ''sulfamethoxazole'' \<or> med = ''sulfasalazine''"
      unfolding s by simp
    then show ?thesis
      unfolding s allergy_alert_sulfa
      by (elim disjE) (simp_all add: sublist_Cons_right)
  qed
  with shape show ?thesis
    by (intro exI [of _ "upper (a_severity info)"] exI [of _ "''Allergy''"]
        exI [of _ "allergy @ '' allergy - avoid '' @ med"] conjI) simp_all
qed

lemma cross_reactivity_alert_form:
  assumes "map_of ALLERGY_ALERTS allergy = Some info" and "med \<in> set (a_cross_reactivity info)"
  shows "alert_without_recommendation (cross_reactivity_alert allergy med)"
proof -
  have shape: "cross_reactivity_alert allergy med =
      ''['' @ ''MODERATE'' @ ''] '' @ ''Cross-reactivity'' @ '' alert: '' @
      (allergy @ '' allergy may cross-react with '' @ med) @ ''.''"
    by (simp add: cross_reactivity_alert_def)
  have 0: "allergy = ''penicillin''" "med = ''cephalosporins''"
    using assms unfolding allergy_lookup by (auto split: if_splits)
  have "\<not> sublist ''Recommendation'' (cross_reactivity_alert allergy med)"
    unfolding 0 cross_reactivity_alert_def by (simp add: sublist_Cons_right)
  with shape show ?thesis
    by (intro exI [of _ "''MODERATE''"] exI [of _ "''Cross-reactivity''"]
        exI [of _ "allergy @ '' allergy may cross-react with '' @ med"] conjI) simp_all
qed

text \<open>
  Claim C5, as amended. Every alert that \<open>generate_contextual_alerts\<close> returns, for
  any patient record, is a text of the form
  \<^verbatim>\<open>[SEVERITY] <Category> alert: <details>.\<close> with the category Genetic, Allergy,
  Cross-reactivity, Interaction, Comorbidity or Age. The Genetic, Interaction,
  Comorbidity and Age alerts continue with \<^verbatim>\<open> Recommendation: <text>\<close>; the Allergy and
  Cross-reactivity alerts end there and do not contain the word Recommendation.
\<close>

theorem alert_format:
  assumes "generate_contextual_alerts patient = Inr alerts" and "a \<in> set alerts"
  shows "(\<exists>sev cat details text.
            a = ''['' @ sev @ ''] '' @ cat @ '' alert: '' @ details @ ''. Recommendation: '' @ text \<and>
            cat \<in> {''Genetic'', ''Interaction'', ''Comorbidity'', ''Age''}) \<or>
         (\<exists>sev cat details.
            a = ''['' @ sev @ ''] '' @ cat @ '' alert: '' @ details @ ''.'' \<and>
            cat \<in> {''Allergy'', ''Cross-reactivity''} \<and> \<not> sublist ''Recommendation'' a)"
proof -
  from generate_contextual_alerts_Inr [OF assms(1)]
  obtain g al i c where g: "check_genetic_alerts (dict_get patient ''genetic_info'' (PList []))
       (dict_get patient ''medications'' (PList [])) = Inr g"
    and al: "check_allergy_alerts (dict_get patient ''allergies'' (PList []))
       (dict_get patient ''medications'' (PList [])) = Inr al"
    and i: "check_drug_interactions (dict_get patient ''medications'' (PList [])) = Inr i"
    and c: "check_comorbidity_alerts (dict_get patient ''comorbidities'' (PList []))
       (dict_get patient ''medications'' (PList [])) (dict_get patient ''age'' (PInt 0)) = Inr c"
    and alerts: "alerts = g @ al @ i @ c"
    by (elim exE conjE)
  from assms(2) alerts consider (g) "a \<in> set g" | (al) "a \<in> set al" | (i) "a \<in> set i"
    | (c) "a \<in> set c"
    by auto
  then show ?thesis
  proof cases
    case g
    from check_genetic_alerts_sound [OF \<open>check_genetic_alerts _ _ = Inr g\<close> g]
    obtain marker med info where "a = genetic_alert marker med info"
      by (elim exE conjE)
    then have "alert_with_recommendation a"
      using genetic_alert_form by simp
    then show ?thesis ..
  next
    case al
    from check_allergy_alerts_sound [OF \<open>check_allergy_alerts _ _ = Inr al\<close> al]
    obtain allergy info med where m: "map_of ALLERGY_ALERTS allergy = Some info"
      and d: "(med \<in> set (a_medications info) \<and> a = allergy_alert allergy med info) \<or>
            (med \<in> set (a_cross_reactivity info) \<and> a = cross_reactivity_alert allergy med)"
      by (elim exE conjE)
    from d have "alert_without_recommendation a"
    proof
      assume "med \<in> set (a_medications info) \<and> a = allergy_alert allergy med info"
      then show ?thesis
        using allergy_alert_form [OF m, of med] by simp
    next
      assume "med \<in> set (a_cross_reactivity info) \<and> a = cross_reactivity_alert allergy med"
      then show ?thesis
        using cross_reactivity_alert_form [OF m, of med] by simp
    qed
    then show ?thesis ..
  next
    case i
    from check_drug_interactions_sound [OF \<open>check_drug_interactions _ = Inr i\<close> i]
    obtain drug1 drug2 info where "a = interaction_alert drug1 drug2 info"
      by (elim exE conjE)
    then have "alert_with_recommendation a"
      using interaction_alert_form by simp
    then show ?thesis ..
  next
    case c
    from check_comorbidity_alerts_sound [OF \<open>check_comorbidity_alerts _ _ _ = Inr c\<close> c]
    have "(\<exists>comorb med info. a = comorbidity_alert comorb med info) \<or>
          (\<exists>med info. a = age_alert med info)"
      by blast
    then have "alert_with_recommendation a"
      using comorbidity_alert_form age_alert_form by (elim disjE exE) simp_all
    then show ?thesis ..
  qed
qed

theorem alert_format_witness:
  "generate_contextual_alerts
     [''allergies'' \<mapsto> PList [PStr ''penicillin''],
      ''medications'' \<mapsto> PList [PStr ''amoxicillin'', PStr ''warfarin'', PStr ''amiodarone'']] =
     Inr [''[HIGH] Allergy alert: penicillin allergy - avoid amoxicillin.'',
          ''[HIGH] Interaction alert: warfarin + amiodarone - Increased bleeding risk. Recommendation: Monitor INR closely and adjust warfarin dose as needed.''] \<and>
   ''[HIGH] Allergy alert: penicillin allergy - avoid amoxicillin.''
     \<in> set [''[HIGH] Allergy alert: penicillin allergy - avoid amoxicillin.'',
            ''[HIGH] Interaction alert: warfarin + amiodarone - Increased bleeding risk. Recommendation: Monitor INR closely and adjust warfarin dose as needed.''] \<and>
   ((\<exists>sev cat details text.
       ''[HIGH] Allergy alert: penicillin allergy - avoid amoxicillin.'' =
         ''['' @ sev @ ''] '' @ cat @ '' alert: '' @ details @ ''. Recommendation: '' @ text \<and>
       cat \<in> {''Genetic'', ''Interaction'', ''Comorbidity'', ''Age''}) \<or>
    (\<exists>sev cat details.
       ''[HIGH] Allergy alert: penicillin allergy - avoid amoxicillin.'' =
         ''['' @ sev @ ''] '' @ cat @ '' alert: '' @ details @ ''.'' \<and>
       cat \<in> {''Allergy'', ''Cross-reactivity''} \<and>
       \<not> sublist ''Recommendation''
           ''[HIGH] Allergy alert: penicillin allergy - avoid amoxicillin.''))"
proof -
  have run: "generate_contextual_alerts
     [''allergies'' \<mapsto> PList [PStr ''penicillin''],
      ''medications'' \<mapsto> PList [PStr ''amoxicillin'', PStr ''warfarin'', PStr ''amiodarone'']] =
     Inr [''[HIGH] Allergy alert: penicillin allergy - avoid amoxicillin.'',
          ''[HIGH] Interaction alert: warfarin + amiodarone - Increased bleeding risk. Recommendation: Monitor INR closely and adjust warfarin dose as needed.'']"
    by (simp add: generate_contextual_alerts_def dict_get_def checker_defs kb_defs alert_defs)
  have mem: "''[HIGH] Allergy alert: penicillin allergy - avoid amoxicillin.''
     \<in> set [''[HIGH] Allergy alert: penicillin allergy - avoid amoxicillin.'',
            ''[HIGH] Interaction alert: warfarin + amiodarone - Increased bleeding risk. Recommendation: Monitor INR closely and adjust warfarin dose as needed.'']"
    by simp
  from run mem alert_format [OF run mem] show ?thesis
    by (intro conjI)
qed

text \<open>
  Claim C5 as stated has direct Allergy alerts carry a recommendation and Interaction
  alerts omit it. For a patient allergic to penicillin who takes amoxicillin, warfarin
  and amiodarone, the Allergy alert has no recommendation and the Interaction alert has
  one.
\<close>

theorem alert_format_counterexample:
  "generate_contextual_alerts
     [''allergies'' \<mapsto> PList [PStr ''penicillin''],
      ''medications'' \<mapsto> PList [PStr ''amoxicillin'', PStr ''warfarin'', PStr ''amiodarone'']] =
     Inr [''[HIGH] Allergy alert: penicillin allergy - avoid amoxicillin.'',
          ''[HIGH] Interaction alert: warfarin + amiodarone - Increased bleeding risk. Recommendation: Monitor INR closely and adjust warfarin dose as needed.''] \<and>
   \<not> sublist ''Recommendation'' ''[HIGH] Allergy alert: penicillin allergy - avoid amoxicillin.'' \<and>
   sublist ''Recommendation''
     ''[HIGH] Interaction alert: warfarin + amiodarone - Increased bleeding risk. Recommendation: Monitor INR closely and adjust warfarin dose as needed.''"
proof (intro conjI)
  show "generate_contextual_alerts
     [''allergies'' \<mapsto> PList [PStr ''penicillin''],
      ''medications'' \<mapsto> PList [PStr ''amoxicillin'', PStr ''warfarin'', PStr ''amiodarone'']] =
     Inr [''[HIGH] Allergy alert: penicillin allergy - avoid amoxicillin.'',
          ''[HIGH] Interaction alert: warfarin + amiodarone - Increased bleeding risk. Recommendation: Monitor INR closely and adjust warfarin dose as needed.'']"
    by (simp add: generate_contextual_alerts_def dict_get_def checker_defs kb_defs alert_defs)
  show "\<not> sublist ''Recommendation''
          ''[HIGH] Allergy alert: penicillin allergy - avoid amoxicillin.''"
    by (simp add: sublist_Cons_right)
  show "sublist ''Recommendation''
     ''[HIGH] Interaction alert: warfarin + amiodarone - Increased bleeding risk. Recommendation: Monitor INR closely and adjust warfarin dose as needed.''"
    by (simp add: sublist_Cons_right)
qed

section \<open>Malformed records\<close>

text \<open>
  The module validates nothing. An element of a list that is not a \<^verbatim>\<open>str\<close> but is
  hashable (\<^verbatim>\<open>None\<close> or an \<^verbatim>\<open>int\<close>) equals no key and no medication name, so each
  loop passes over it.
\<close>

lemma dict_find_non_str: "hashable v \<Longrightarrow> \<not> is_str v \<Longrightarrow> dict_find d v = Inr None"
  by (cases v) simp_all

lemma list_find_non_str: "\<not> is_str v \<Longrightarrow> list_find l v = None"
  by (cases v) simp_all

lemma check_genetic_alerts_filter:
  assumes "list_all hashable gs" and "list_all hashable ms"
  shows "check_genetic_alerts (PList gs) (PList ms) =
           check_genetic_alerts (PList (filter is_str gs)) (PList (filter is_str ms))"
proof -
  define inner where "inner marker rules = (\<lambda>med alerts.
      bind (dict_find rules med) (\<lambda>found.
        case found of None \<Rightarrow> Inr alerts
        | Some (med, info) \<Rightarrow> Inr (alerts @ [genetic_alert marker med info])))"
    for marker :: string and rules :: "(string \<times> genetic_rule) list"
  define outer where "outer meds = (\<lambda>marker alerts.
      bind (dict_find GENETIC_ALERTS marker) (\<lambda>found.
        case found of None \<Rightarrow> Inr alerts
        | Some (marker, rules) \<Rightarrow>
            bind (py_iter meds) (\<lambda>ms. for_each ms (inner marker rules) alerts)))"
    for meds
  have unfold: "check_genetic_alerts (PList xs) meds = for_each xs (outer meds) []" for xs meds
    unfolding check_genetic_alerts_def outer_def inner_def by simp
  have inner_skip: "inner marker rules y t = Inr t" if "hashable y" and "\<not> is_str y"
    for marker rules y t
    using that by (simp add: inner_def dict_find_non_str)
  have inner_eq: "for_each (filter is_str ms) (inner marker rules) t =
                    for_each ms (inner marker rules) t" for marker rules t
  proof (rule for_each_filter [where keep = is_str])
    fix x s
    assume "x \<in> set ms" and "\<not> is_str x"
    with assms(2) show "inner marker rules x s = Inr s"
      by (auto simp add: list_all_iff intro: inner_skip)
  qed
  have outer_eq: "outer (PList (filter is_str ms)) x t = outer (PList ms) x t" for x t
  proof (cases "dict_find GENETIC_ALERTS x")
    case (Inl e)
    then show ?thesis
      by (simp add: outer_def)
  next
    case (Inr found)
    then show ?thesis
      by (cases found) (auto simp add: outer_def inner_eq)
  qed
  have outer_skip: "outer meds y t = Inr t" if "hashable y" and "\<not> is_str y" for meds y t
    using that by (simp add: outer_def dict_find_non_str)
  have "for_each (filter is_str gs) (outer (PList (filter is_str ms))) [] =
          for_each gs (outer (PList (filter is_str ms))) []"
  proof (rule for_each_filter [where keep = is_str])
    fix x s
    assume "x \<in> set gs" and "\<not> is_str x"
    with assms(1) show "outer (PList (filter is_str ms)) x s = Inr s"
      by (auto simp add: list_all_iff intro: outer_skip)
  qed
  also have "\<dots> = for_each gs (outer (PList ms)) []"
    by (rule for_each_cong) (rule outer_eq)
  finally show ?thesis
    unfolding unfold by simp
qed


lemma allergy_med_step_non_str: "\<not> is_str v \<Longrightarrow> allergy_med_step allergy info v t = t"
  by (simp add: allergy_med_step_def list_find_non_str)

lemma check_allergy_alerts_filter:
  assumes "list_all hashable als"
  shows "check_allergy_alerts (PList als) (PList ms) =
           check_allergy_alerts (PList (filter is_str als)) (PList (filter is_str ms))"
proof -
  define inner where "inner allergy info = (\<lambda>med alerts.
      (Inr (allergy_med_step allergy info med alerts) :: error + string list))"
    for allergy :: string and info :: allergy_rule
  define outer where "outer meds = (\<lambda>allergy alerts.
      bind (dict_find ALLERGY_ALERTS allergy) (\<lambda>found.
        case found of None \<Rightarrow> Inr alerts
        | Some (allergy, allergy_info) \<Rightarrow>
            bind (py_iter meds) (\<lambda>ms. for_each ms (inner allergy allergy_info) alerts)))"
    for meds
  have unfold: "check_allergy_alerts (PList xs) meds = for_each xs (outer meds) []" for xs meds
    unfolding check_allergy_alerts_def outer_def inner_def by simp
  have inner_eq: "for_each (filter is_str ms) (inner allergy info) t =
                    for_each ms (inner allergy info) t" for allergy info t
  proof (rule for_each_filter [where keep = is_str])
    fix x s
    assume "x \<in> set ms" and "\<not> is_str x"
    then show "inner allergy info x s = Inr s"
      by (simp add: inner_def allergy_med_step_non_str)
  qed
  have outer_eq: "outer (PList (filter is_str ms)) x t = outer (PList ms) x t" for x t
  proof (cases "dict_find ALLERGY_ALERTS x")
    case (Inl e)
    then show ?thesis
      by (simp add: outer_def)
  next
    case (Inr found)
    then show ?thesis
      by (cases found) (auto simp add: outer_def inner_eq)
  qed
  have outer_skip: "outer meds y t = Inr t" if "hashable y" and "\<not> is_str y" for meds y t
    using that by (simp add: outer_def dict_find_non_str)
  have "for_each (filter is_str als) (outer (PList (filter is_str ms))) [] =
          for_each als (outer (PList (filter is_str ms))) []"
  proof (rule for_each_filter [where keep = is_str])
    fix x s
    assume "x \<in> set als" and "\<not> is_str x"
    with assms(1) show "outer (PList (filter is_str ms)) x s = Inr s"
      by (auto simp add: list_all_iff intro: outer_skip)
  qed
  also have "\<dots> = for_each als (outer (PList ms)) []"
    by (rule for_each_cong) (rule outer_eq)
  finally show ?thesis
    unfolding unfold by simp
qed

lemma py_set_hashable: "list_all hashable xs \<Longrightarrow> py_set (PList xs) = Inr (set xs)"
  by (simp add: py_set_def)

lemma check_drug_interactions_filter:
  assumes "list_all hashable ms"
  shows "check_drug_interactions (PList ms) = check_drug_interactions (PList (filter is_str ms))"
proof -
  define body where "body M = (\<lambda>((drug1, drug2), info) alerts.
         if PStr drug1 \<in> M \<and> PStr drug2 \<in> M
         then Inr (alerts @ [interaction_alert drug1 drug2 info])
         else (Inr alerts :: error + string list))" for M :: "pyval set"
  have unfold: "check_drug_interactions (PList xs) = for_each DRUG_INTERACTIONS (body (set xs)) []"
    if "list_all hashable xs" for xs
    unfolding check_drug_interactions_def body_def py_set_hashable [OF that] by simp
  from assms have h: "list_all hashable (filter is_str ms)"
    by (simp add: list_all_iff)
  have "body (set (filter is_str ms)) x t = body (set ms) x t" for x t
    by (cases x) (auto simp add: body_def)
  then have "for_each DRUG_INTERACTIONS (body (set (filter is_str ms))) [] =
               for_each DRUG_INTERACTIONS (body (set ms)) []"
    by (intro for_each_cong)
  then show ?thesis
    unfolding unfold [OF assms] unfold [OF h] by simp
qed

lemma check_comorbidity_alerts_filter:
  "check_comorbidity_alerts cs (PList ms) age =
     check_comorbidity_alerts cs (PList (filter is_str ms)) age"
proof -
  define inner where "inner comorb info = (\<lambda>med alerts.
      case list_find (c_medications info) med of
        None \<Rightarrow> Inr alerts
      | Some med \<Rightarrow> (Inr (alerts @ [comorbidity_alert comorb med info]) :: error + string list))"
    for comorb :: string and info :: comorbidity_rule
  define outer where "outer meds = (\<lambda>comorb alerts.
      bind (dict_find COMORBIDITY_ALERTS comorb) (\<lambda>found.
        case found of None \<Rightarrow> Inr alerts
        | Some (comorb, info) \<Rightarrow>
            bind (py_iter meds) (\<lambda>ms. for_each ms (inner comorb info) alerts)))"
    for meds
  define agebody where "agebody elderly_info = (\<lambda>med alerts.
      case list_find (c_medications elderly_info) med of
        None \<Rightarrow> Inr alerts
      | Some med \<Rightarrow> (Inr (alerts @ [age_alert med elderly_info]) :: error + string list))"
    for elderly_info :: comorbidity_rule
  define phase2 where "phase2 meds = (\<lambda>alerts.
      bind (py_ge age 65) (\<lambda>old.
       if old then
         (case map_of COMORBIDITY_ALERTS ''elderly'' of
            None \<Rightarrow> Inr alerts
          | Some elderly_info \<Rightarrow>
              bind (py_iter meds) (\<lambda>ms. for_each ms (agebody elderly_info) alerts))
       else Inr alerts))" for meds
  have unfold: "check_comorbidity_alerts cs meds age =
      bind (py_iter cs) (\<lambda>comorbs. bind (for_each comorbs (outer meds) []) (phase2 meds))"
    for meds
    unfolding check_comorbidity_alerts_def outer_def inner_def phase2_def agebody_def by simp
  have inner_eq: "for_each (filter is_str ms) (inner comorb info) t =
                    for_each ms (inner comorb info) t" for comorb info t
  proof (rule for_each_filter [where keep = is_str])
    fix x s
    assume "x \<in> set ms" and "\<not> is_str x"
    then show "inner comorb info x s = Inr s"
      by (simp add: inner_def list_find_non_str)
  qed
  have age_eq: "for_each (filter is_str ms) (agebody info) t = for_each ms (agebody info) t"
    for info t
  proof (rule for_each_filter [where keep = is_str])
    fix x s
    assume "x \<in> set ms" and "\<not> is_str x"
    then show "agebody info x s = Inr s"
      by (simp add: agebody_def list_find_non_str)
  qed
  have outer_eq: "outer (PList (filter is_str ms)) x t = outer (PList ms) x t" for x t
  proof (cases "dict_find COMORBIDITY_ALERTS x")
    case (Inl e)
    then show ?thesis
      by (simp add: outer_def)
  next
    case (Inr found)
    then show ?thesis
      by (cases found) (auto simp add: outer_def inner_eq)
  qed
  have loops: "for_each xs (outer (PList (filter is_str ms))) [] =
                 for_each xs (outer (PList ms)) []" for xs
    by (rule for_each_cong) (rule outer_eq)
  have phase2_eq: "phase2 (PList (filter is_str ms)) t = phase2 (PList ms) t" for t
  proof (cases "py_ge age 65")
    case (Inl e)
    then show ?thesis
      by (simp add: phase2_def)
  next
    case (Inr old)
    then show ?thesis
      by (cases "map_of COMORBIDITY_ALERTS ''elderly''") (auto simp add: phase2_def age_eq)
  qed
  have "phase2 (PList (filter is_str ms)) = phase2 (PList ms)"
    by (rule ext) (rule phase2_eq)
  then show ?thesis
    unfolding unfold loops by simp
qed


lemma check_comorbidity_alerts_filter_comorbs:
  assumes "list_all hashable cs"
  shows "check_comorbidity_alerts (PList cs) meds age =
           check_comorbidity_alerts (PList (filter is_str cs)) meds age"
proof -
  define outer where "outer = (\<lambda>comorb alerts.
      bind (dict_find COMORBIDITY_ALERTS comorb) (\<lambda>found.
        case found of None \<Rightarrow> Inr alerts
        | Some (comorb, info) \<Rightarrow>
            bind (py_iter meds) (\<lambda>ms.
              for_each ms (\<lambda>med alerts.
                case list_find (c_medications info) med of
                  None \<Rightarrow> Inr alerts
                | Some med \<Rightarrow> Inr (alerts @ [comorbidity_alert comorb med info]))
                alerts)))"
  define phase2 where "phase2 = (\<lambda>alerts.
      bind (py_ge age 65) (\<lambda>old.
       if old then
         (case map_of COMORBIDITY_ALERTS ''elderly'' of
            None \<Rightarrow> Inr alerts
          | Some elderly_info \<Rightarrow>
              bind (py_iter meds) (\<lambda>ms.
                for_each ms (\<lambda>med alerts.
                  case list_find (c_medications elderly_info) med of
                    None \<Rightarrow> Inr alerts
                  | Some med \<Rightarrow> Inr (alerts @ [age_alert med elderly_info]))
                  alerts))
       else (Inr alerts :: error + string list)))"
  have unfold: "check_comorbidity_alerts (PList xs) meds age =
      bind (for_each xs outer []) phase2" for xs
    unfolding check_comorbidity_alerts_def outer_def phase2_def by simp
  have outer_skip: "outer y t = Inr t" if "hashable y" and "\<not> is_str y" for y t
    using that by (simp add: outer_def dict_find_non_str)
  have "for_each (filter is_str cs) outer [] = for_each cs outer []"
  proof (rule for_each_filter [where keep = is_str])
    fix x s
    assume "x \<in> set cs" and "\<not> is_str x"
    with assms show "outer x s = Inr s"
      by (auto simp add: list_all_iff intro: outer_skip)
  qed
  then show ?thesis
    unfolding unfold by simp
qed

lemma filter_is_str_strs: "\<exists>ss. PList (filter is_str xs) = strs ss"
proof -
  have "list_all is_str (filter is_str xs)"
    by (simp add: list_all_iff)
  then obtain ss where "filter is_str xs = map PStr ss"
    using list_all_is_str by blast
  then have "PList (filter is_str xs) = strs ss"
    by (simp add: strs_def)
  then show ?thesis
    by (rule exI)
qed

text \<open>
  Claim C4, as amended. No validation error exists. In a record whose genetic markers,
  allergies, medications and comorbidities are lists of strings, integers and
  \<^verbatim>\<open>None\<close> and whose age is an integer, the elements that are not strings are
  silently ignored: evaluation succeeds and returns the alerts of the record with these
  elements removed. A missing \<^verbatim>\<open>medications\<close> field is treated as the empty list. A
  \<^verbatim>\<open>medications\<close> field that holds \<^verbatim>\<open>None\<close> is not: evaluation raises
  \<^verbatim>\<open>TypeError\<close>.
\<close>

theorem non_string_elements_ignored:
  "(\<forall>gs als ms cs n.
      dict_get patient ''genetic_info'' (PList []) = PList gs \<longrightarrow>
      dict_get patient ''allergies'' (PList []) = PList als \<longrightarrow>
      dict_get patient ''medications'' (PList []) = PList ms \<longrightarrow>
      dict_get patient ''comorbidities'' (PList []) = PList cs \<longrightarrow>
      dict_get patient ''age'' (PInt 0) = PInt n \<longrightarrow>
      list_all hashable gs \<longrightarrow> list_all hashable als \<longrightarrow> list_all hashable ms \<longrightarrow>
      list_all hashable cs \<longrightarrow>
      (\<exists>alerts.
         generate_contextual_alerts patient = Inr alerts \<and>
         generate_contextual_alerts
           (patient(''genetic_info'' \<mapsto> PList (filter is_str gs),
                    ''allergies'' \<mapsto> PList (filter is_str als),
                    ''medications'' \<mapsto> PList (filter is_str ms),
                    ''comorbidities'' \<mapsto> PList (filter is_str cs))) = Inr alerts)) \<and>
   (patient ''medications'' = None \<longrightarrow>
      generate_contextual_alerts patient =
        generate_contextual_alerts (patient(''medications'' \<mapsto> PList []))) \<and>
   (patient ''medications'' = Some PNone \<longrightarrow>
      generate_contextual_alerts patient = Inl TypeError)"
proof (intro conjI allI impI)
  fix gs als ms cs n
  assume f: "dict_get patient ''genetic_info'' (PList []) = PList gs"
    "dict_get patient ''allergies'' (PList []) = PList als"
    "dict_get patient ''medications'' (PList []) = PList ms"
    "dict_get patient ''comorbidities'' (PList []) = PList cs"
    "dict_get patient ''age'' (PInt 0) = PInt n"
  assume h: "list_all hashable gs" "list_all hashable als" "list_all hashable ms"
    "list_all hashable cs"
  let ?p = "patient(''genetic_info'' \<mapsto> PList (filter is_str gs),
                    ''allergies'' \<mapsto> PList (filter is_str als),
                    ''medications'' \<mapsto> PList (filter is_str ms),
                    ''comorbidities'' \<mapsto> PList (filter is_str cs))"
  have f': "dict_get ?p ''genetic_info'' (PList []) = PList (filter is_str gs)"
    "dict_get ?p ''allergies'' (PList []) = PList (filter is_str als)"
    "dict_get ?p ''medications'' (PList []) = PList (filter is_str ms)"
    "dict_get ?p ''comorbidities'' (PList []) = PList (filter is_str cs)"
    "dict_get ?p ''age'' (PInt 0) = PInt n"
    using f(5) by (simp_all add: dict_get_def)
  obtain gss where gss: "PList (filter is_str gs) = strs gss"
    using filter_is_str_strs by blast
  obtain ass where ass: "PList (filter is_str als) = strs ass"
    using filter_is_str_strs by blast
  obtain mss where mss: "PList (filter is_str ms) = strs mss"
    using filter_is_str_strs by blast
  obtain css where css: "PList (filter is_str cs) = strs css"
    using filter_is_str_strs by blast
  let ?g = "concat (map (genetic_alerts_for mss) gss)"
  let ?a = "concat (map (allergy_alerts_for mss) ass)"
  let ?i = "concat (map (interaction_alerts_for (set mss)) DRUG_INTERACTIONS)"
  let ?c = "concat (map (comorbidity_alerts_for mss) css) @ age_alerts_for mss n"
  have g: "check_genetic_alerts (PList (filter is_str gs)) (PList (filter is_str ms)) = Inr ?g"
    unfolding gss mss by (rule check_genetic_alerts_strs)
  have a: "check_allergy_alerts (PList (filter is_str als)) (PList (filter is_str ms)) = Inr ?a"
    unfolding ass mss by (rule check_allergy_alerts_strs)
  have i: "check_drug_interactions (PList (filter is_str ms)) = Inr ?i"
    unfolding mss by (rule check_drug_interactions_strs)
  have c: "check_comorbidity_alerts (PList (filter is_str cs)) (PList (filter is_str ms)) (PInt n) =
             Inr ?c"
    unfolding css mss by (rule check_comorbidity_alerts_strs)
  have g0: "check_genetic_alerts (PList gs) (PList ms) = Inr ?g"
    unfolding check_genetic_alerts_filter [OF h(1) h(3)] by (rule g)
  have a0: "check_allergy_alerts (PList als) (PList ms) = Inr ?a"
    unfolding check_allergy_alerts_filter [OF h(2)] by (rule a)
  have i0: "check_drug_interactions (PList ms) = Inr ?i"
    unfolding check_drug_interactions_filter [OF h(3)] by (rule i)
  have "check_comorbidity_alerts (PList cs) (PList ms) (PInt n) =
          check_comorbidity_alerts (PList (filter is_str cs)) (PList ms) (PInt n)"
    by (rule check_comorbidity_alerts_filter_comorbs [OF h(4)])
  also have "\<dots> = check_comorbidity_alerts (PList (filter is_str cs)) (PList (filter is_str ms))
                      (PInt n)"
    by (rule check_comorbidity_alerts_filter)
  finally have c0: "check_comorbidity_alerts (PList cs) (PList ms) (PInt n) = Inr ?c"
    unfolding c .
  have 1: "generate_contextual_alerts patient = Inr (?g @ ?a @ ?i @ ?c)"
    by (rule generate_contextual_alerts_concat) (simp_all only: f g0 a0 i0 c0)
  have 2: "generate_contextual_alerts ?p = Inr (?g @ ?a @ ?i @ ?c)"
    by (rule generate_contextual_alerts_concat) (simp_all only: f' g a i c)
  from 1 2 show "\<exists>alerts.
         generate_contextual_alerts patient = Inr alerts \<and>
         generate_contextual_alerts ?p = Inr alerts"
    by (intro exI conjI)
next
  assume "patient ''medications'' = None"
  then show "generate_contextual_alerts patient =
        generate_contextual_alerts (patient(''medications'' \<mapsto> PList []))"
    by (simp add: generate_contextual_alerts_def dict_get_def)
next
  assume "patient ''medications'' = Some PNone"
  then have m: "dict_get patient ''medications'' (PList []) = PNone"
    by (simp add: dict_get_def)
  have i: "check_drug_interactions PNone = Inl TypeError"
    by (simp add: check_drug_interactions_def py_set_def)
  let ?G = "check_genetic_alerts (dict_get patient ''genetic_info'' (PList [])) PNone"
  let ?A = "check_allergy_alerts (dict_get patient ''allergies'' (PList [])) PNone"
  show "generate_contextual_alerts patient = Inl TypeError"
  proof (cases ?G)
    case (Inl y)
    then show ?thesis
      unfolding generate_contextual_alerts_def Let_def m by (cases y) simp
  next
    case g: (Inr g)
    show ?thesis
    proof (cases ?A)
      case (Inl y)
      with g show ?thesis
        unfolding generate_contextual_alerts_def Let_def m by (cases y) simp
    next
      case (Inr a)
      with g i show ?thesis
        unfolding generate_contextual_alerts_def Let_def m by simp
    qed
  qed
qed

theorem non_string_elements_ignored_witness:
  "dict_get [''genetic_info'' \<mapsto> PList [PInt 1], ''allergies'' \<mapsto> PList [PNone],
             ''medications'' \<mapsto> PList [PInt 5, PStr ''warfarin'', PStr ''amiodarone'']]
     ''genetic_info'' (PList []) = PList [PInt 1] \<and>
   dict_get [''genetic_info'' \<mapsto> PList [PInt 1], ''allergies'' \<mapsto> PList [PNone],
             ''medications'' \<mapsto> PList [PInt 5, PStr ''warfarin'', PStr ''amiodarone'']]
     ''allergies'' (PList []) = PList [PNone] \<and>
   dict_get [''genetic_info'' \<mapsto> PList [PInt 1], ''allergies'' \<mapsto> PList [PNone],
             ''medications'' \<mapsto> PList [PInt 5, PStr ''warfarin'', PStr ''amiodarone'']]
     ''medications'' (PList []) = PList [PInt 5, PStr ''warfarin'', PStr ''amiodarone''] \<and>
   dict_get [''genetic_info'' \<mapsto> PList [PInt 1], ''allergies'' \<mapsto> PList [PNone],
             ''medications'' \<mapsto> PList [PInt 5, PStr ''warfarin'', PStr ''amiodarone'']]
     ''comorbidities'' (PList []) = PList [] \<and>
   dict_get [''genetic_info'' \<mapsto> PList [PInt 1], ''allergies'' \<mapsto> PList [PNone],
             ''medications'' \<mapsto> PList [PInt 5, PStr ''warfarin'', PStr ''amiodarone'']]
     ''age'' (PInt 0) = PInt 0 \<and>
   list_all hashable [PInt 1] \<and> list_all hashable [PNone] \<and>
   list_all hashable [PInt 5, PStr ''warfarin'', PStr ''amiodarone''] \<and> list_all hashable [] \<and>
   (\<exists>alerts.
      generate_contextual_alerts
        [''genetic_info'' \<mapsto> PList [PInt 1], ''allergies'' \<mapsto> PList [PNone],
         ''medications'' \<mapsto> PList [PInt 5, PStr ''warfarin'', PStr ''amiodarone'']] = Inr alerts \<and>
      generate_contextual_alerts
        ([''genetic_info'' \<mapsto> PList [PInt 1], ''allergies'' \<mapsto> PList [PNone],
          ''medications'' \<mapsto> PList [PInt 5, PStr ''warfarin'', PStr ''amiodarone'']]
         (''genetic_info'' \<mapsto> PList (filter is_str [PInt 1]),
          ''allergies'' \<mapsto> PList (filter is_str [PNone]),
          ''medications'' \<mapsto>
            PList (filter is_str [PInt 5, PStr ''warfarin'', PStr ''amiodarone'']),
          ''comorbidities'' \<mapsto> PList (filter is_str []))) = Inr alerts) \<and>
   generate_contextual_alerts
     [''genetic_info'' \<mapsto> PList [PInt 1], ''allergies'' \<mapsto> PList [PNone],
      ''medications'' \<mapsto> PList [PInt 5, PStr ''warfarin'', PStr ''amiodarone'']] =
     Inr [''[HIGH] Interaction alert: warfarin + amiodarone - Increased bleeding risk. Recommendation: Monitor INR closely and adjust warfarin dose as needed.''] \<and>
   (Map.empty :: string \<rightharpoonup> pyval) ''medications'' = None \<and>
   generate_contextual_alerts Map.empty =
     generate_contextual_alerts (Map.empty(''medications'' \<mapsto> PList [])) \<and>
   generate_contextual_alerts Map.empty = Inr [] \<and>
   [''medications'' \<mapsto> PNone] ''medications'' = Some PNone \<and>
   generate_contextual_alerts [''medications'' \<mapsto> PNone] = Inl TypeError"
proof -
  let ?p = "[''genetic_info'' \<mapsto> PList [PInt 1], ''allergies'' \<mapsto> PList [PNone],
             ''medications'' \<mapsto> PList [PInt 5, PStr ''warfarin'', PStr ''amiodarone'']]"
  have f1: "dict_get ?p ''genetic_info'' (PList []) = PList [PInt 1]"
    by (simp add: dict_get_def)
  have f2: "dict_get ?p ''allergies'' (PList []) = PList [PNone]"
    by (simp add: dict_get_def)
  have f3: "dict_get ?p ''medications'' (PList []) =
              PList [PInt 5, PStr ''warfarin'', PStr ''amiodarone'']"
    by (simp add: dict_get_def)
  have f4: "dict_get ?p ''comorbidities'' (PList []) = PList []"
    by (simp add: dict_get_def)
  have f5: "dict_get ?p ''age'' (PInt 0) = PInt 0"
    by (simp add: dict_get_def)
  have h1: "list_all hashable [PInt 1]"
    by simp
  have h2: "list_all hashable [PNone]"
    by simp
  have h3: "list_all hashable [PInt 5, PStr ''warfarin'', PStr ''amiodarone'']"
    by simp
  have h4: "list_all hashable []"
    by simp
  note part1 = non_string_elements_ignored [of ?p, THEN conjunct1, rule_format,
      OF f1 f2 f3 f4 f5 h1 h2 h3 h4]
  have run: "generate_contextual_alerts ?p =
     Inr [''[HIGH] Interaction alert: warfarin + amiodarone - Increased bleeding risk. Recommendation: Monitor INR closely and adjust warfarin dose as needed.'']"
    by (simp add: generate_contextual_alerts_def dict_get_def checker_defs kb_defs alert_defs)
  have m0: "(Map.empty :: string \<rightharpoonup> pyval) ''medications'' = None"
    by simp
  note part2 = non_string_elements_ignored [of Map.empty, THEN conjunct2, THEN conjunct1,
      rule_format, OF m0]
  have run0: "generate_contextual_alerts Map.empty = Inr []"
    by (simp add: generate_contextual_alerts_def dict_get_def checker_defs kb_defs alert_defs)
  have m1: "[''medications'' \<mapsto> PNone] ''medications'' = Some PNone"
    by simp
  note part3 = non_string_elements_ignored [of "[''medications'' \<mapsto> PNone]",
      THEN conjunct2, THEN conjunct2, rule_format, OF m1]
  from f1 f2 f3 f4 f5 h1 h2 h3 h4 part1 run m0 part2 run0 m1 part3 show ?thesis
    by (intro conjI)
qed

text \<open>
  Claim C4 as stated asks for a validation error on a non-string element and for
  \<^verbatim>\<open>None\<close> medications to count as empty. A record with the integer 1 among the
  markers, \<^verbatim>\<open>None\<close> among the allergies and the integer 5 among the medications is
  evaluated without error, and a record whose medications are \<^verbatim>\<open>None\<close> raises
  \<^verbatim>\<open>TypeError\<close>.
\<close>

theorem validation_counterexample:
  "generate_contextual_alerts
     [''genetic_info'' \<mapsto> PList [PInt 1], ''allergies'' \<mapsto> PList [PNone],
      ''medications'' \<mapsto> PList [PInt 5, PStr ''warfarin'', PStr ''amiodarone'']] =
     Inr [''[HIGH] Interaction alert: warfarin + amiodarone - Increased bleeding risk. Recommendation: Monitor INR closely and adjust warfarin dose as needed.''] \<and>
   generate_contextual_alerts [''medications'' \<mapsto> PNone] = Inl TypeError"
  by (simp add: generate_contextual_alerts_def dict_get_def checker_defs kb_defs alert_defs)

end
